theory Spec2Isabelle
  imports Main "HOL-Library.Sublist" "HOL-Library.Word"
begin

section \<open>The competitor-intelligence pipeline of \<^verbatim>\<open>main.py\<close>\<close>

text \<open>
  \<^verbatim>\<open>main.py\<close> runs three agents (\<^verbatim>\<open>firecrawl_agent\<close>, \<^verbatim>\<open>analysis_agent\<close>,
  \<^verbatim>\<open>comparison_agent\<close>) over one shared dictionary, wired into a LangGraph
  \<^verbatim>\<open>StateGraph\<close> by \<^verbatim>\<open>create_workflow\<close> and started by
  \<^verbatim>\<open>run_competitor_analysis\<close>. The agents are embedded below as functions from the
  state to the state, inside a small monad that carries the exceptions of the Python code
  as values and a record of the calls made to the outside.

  What lies outside the repository is a parameter of the model (the record \<open>env\<close>): the
  replies of the inference service, the replies of the search service, \<^verbatim>\<open>json.loads\<close>
  and Python's \<^verbatim>\<open>str()\<close> of a value that is not a string.
\<close>

subsection \<open>Python values\<close>

text \<open>
  What \<^verbatim>\<open>json.loads\<close> and the search client hand back: \<^verbatim>\<open>None\<close>, booleans, integers,
  floats (an IEEE double, kept as its 64 bits: nothing below looks inside one), strings,
  lists and dictionaries with string keys (an association list in insertion order).
  A character of a Python \<^verbatim>\<open>str\<close> is one \<open>char\<close> here, so the model covers the texts
  whose code points are below 256.
\<close>

datatype pyval =
    PyNone
  | PyBool bool
  | PyInt int
  | PyFloat "64 word"
  | PyStr string
  | PyList "pyval list"
  | PyDict "(string \<times> pyval) list"

datatype exn =
    NameError string
  | TypeError
  | AttributeError
  | IndexError
  | JSONDecodeError
  | ValueError
  | GraphRecursionError
  | ServiceError string

text \<open>\<^verbatim>\<open>len(x)\<close>: defined on lists, dictionaries and strings, a \<^verbatim>\<open>TypeError\<close> otherwise.\<close>

fun py_len :: "pyval \<Rightarrow> exn + nat" where
  "py_len (PyList xs) = Inr (length xs)"
| "py_len (PyDict kvs) = Inr (length kvs)"
| "py_len (PyStr s) = Inr (length s)"
| "py_len _ = Inl TypeError"

text \<open>\<^verbatim>\<open>x[:n]\<close>: a list or a string is cut; anything else cannot be sliced.\<close>

fun py_slice :: "nat \<Rightarrow> pyval \<Rightarrow> exn + pyval" where
  "py_slice n (PyList xs) = Inr (PyList (take n xs))"
| "py_slice n (PyStr s) = Inr (PyStr (take n s))"
| "py_slice n _ = Inl TypeError"

text \<open>
  What a \<^verbatim>\<open>for\<close> loop iterates over: the elements of a list, the one-character strings
  of a string, the keys of a dictionary; anything else is not iterable.
\<close>

fun py_iter :: "pyval \<Rightarrow> exn + pyval list" where
  "py_iter (PyList xs) = Inr xs"
| "py_iter (PyStr s) = Inr (map (\<lambda>c. PyStr [c]) s)"
| "py_iter (PyDict kvs) = Inr (map (\<lambda>kv. PyStr (fst kv)) kvs)"
| "py_iter _ = Inl TypeError"

text \<open>\<^verbatim>\<open>x.get(k, d)\<close>: only a dictionary has the method.\<close>

fun py_get :: "pyval \<Rightarrow> string \<Rightarrow> pyval \<Rightarrow> exn + pyval" where
  "py_get (PyDict kvs) k d = Inr (case map_of kvs k of Some v \<Rightarrow> v | None \<Rightarrow> d)"
| "py_get _ k d = Inl AttributeError"

text \<open>\<^verbatim>\<open>xs[i]\<close> on a list of strings, with the \<^verbatim>\<open>IndexError\<close> of an index out of range.\<close>

definition py_index :: "'a list \<Rightarrow> nat \<Rightarrow> exn + 'a" where
  "py_index xs i = (if i < length xs then Inr (xs ! i) else Inl IndexError)"

text \<open>\<^verbatim>\<open>str(n)\<close> of a length, as the f-strings of the progress messages print it.\<close>

fun str_nat :: "nat \<Rightarrow> string" where
  "str_nat n = (if n < 10 then [''0123456789'' ! n]
                else str_nat (n div 10) @ [''0123456789'' ! (n mod 10)])"

declare str_nat.simps [simp del]

subsection \<open>String operations of the extraction code\<close>

text \<open>\<^verbatim>\<open>sub in s\<close>: \<open>sub\<close> occurs in \<open>s\<close> as a contiguous substring.\<close>

fun contains :: "string \<Rightarrow> string \<Rightarrow> bool" where
  "contains sub [] = (sub = [])"
| "contains sub (c # cs) = (prefix sub (c # cs) \<or> contains sub cs)"

text \<open>
  \<^verbatim>\<open>s.split(sep)\<close>: the pieces of \<open>s\<close> between the occurrences of \<open>sep\<close>, found from the
  left and not overlapping. Every call in \<^verbatim>\<open>main.py\<close> passes a literal separator that is
  not empty (Python raises \<^verbatim>\<open>ValueError\<close> for an empty one).
\<close>

fun py_split :: "string \<Rightarrow> string \<Rightarrow> string list" where
  "py_split sep [] = [[]]"
| "py_split sep (c # cs) =
     (if prefix sep (c # cs) then [] # py_split sep (drop (length sep - 1) cs)
      else (case py_split sep cs of [] \<Rightarrow> [[c]] | p # ps \<Rightarrow> (c # p) # ps))"

text \<open>
  \<^verbatim>\<open>str.isspace\<close> on one character, for code points below 256: TAB to CR, FS to US and
  the space, NEL and the no-break space. \<^verbatim>\<open>s.strip()\<close> removes such characters from
  both ends.
\<close>

definition isspace :: "char \<Rightarrow> bool" where
  "isspace c = (let n = (of_char c :: nat) in
      (9 \<le> n \<and> n \<le> 13) \<or> (28 \<le> n \<and> n \<le> 32) \<or> n = 133 \<or> n = 160)"

definition strip :: "string \<Rightarrow> string" where
  "strip s = rev (dropWhile isspace (rev (dropWhile isspace s)))"

text \<open>
  \<^verbatim>\<open>re.search(r'\[.*\]', content, re.DOTALL)\<close> and its twin with braces, followed by
  \<^verbatim>\<open>.group()\<close>. With \<^verbatim>\<open>DOTALL\<close> the dot matches every character and the star is
  greedy, so the leftmost match starts at the first opening bracket and runs to the last
  closing bracket after it; there is no match when no closing bracket follows the first
  opening one.
\<close>

definition re_search :: "char \<Rightarrow> char \<Rightarrow> string \<Rightarrow> string option" where
  "re_search l r content =
     (case dropWhile (\<lambda>c. c \<noteq> l) content of
        [] \<Rightarrow> None
      | _ # body \<Rightarrow>
          if r \<in> set body
          then Some (l # rev (dropWhile (\<lambda>c. c \<noteq> r) (rev body)))
          else None)"

text \<open>The newline character on which the section text is cut into lines.\<close>

definition newline :: string where
  "newline = [CHR 0x0A]"

text \<open>
  Lines 253 to 257 and 260 to 264 of \<^verbatim>\<open>analysis_agent\<close>, once for each heading: when the
  heading text occurs, take piece 1 of the split at the heading, piece 0 of its split at
  \<^verbatim>\<open>##\<close>, and keep of its lines the stripped form of those that are not blank and whose
  own length exceeds 20, five at most; else the default.
\<close>

definition extract_section :: "string \<Rightarrow> string list \<Rightarrow> string \<Rightarrow> exn + string list" where
  "extract_section heading dflt analysis =
     (if contains heading analysis then
        (case py_index (py_split heading analysis) 1 of
           Inl e \<Rightarrow> Inl e
         | Inr after_heading \<Rightarrow>
             (case py_index (py_split ''##'' after_heading) 0 of
                Inl e \<Rightarrow> Inl e
              | Inr section_text \<Rightarrow>
                  Inr (take 5 (map strip
                    (filter (\<lambda>line. strip line \<noteq> [] \<and> length line > 20)
                       (py_split newline section_text))))))
      else Inr dflt)"

subsection \<open>The outside world\<close>

text \<open>
  A prompt is an f-string: fixed prose around the values put into it. Only those values
  are kept, under the name of the template. The lists and dictionaries among them are
  passed through \<^verbatim>\<open>json.dumps\<close>, which cannot fail on values that came from
  \<^verbatim>\<open>json.loads\<close> or from literals.
\<close>

datatype prompt =
    PlanningPrompt string
  | RankingPrompt string "pyval list"
  | AnalysisPrompt string pyval
  | ComparisonPrompt string pyval
  | StrategyPrompt string string pyval

text \<open>
  The services answer call by call: \<open>llm_reply env k\<close> is what the k-th call of
  \<^verbatim>\<open>llm.invoke\<close> in a run returns (its \<^verbatim>\<open>.content\<close>) or raises, \<open>search_reply env k\<close>
  the same for the k-th call of \<^verbatim>\<open>tavily.search\<close>. Every behaviour of the two services
  in one run is such a pair of sequences. \<open>json_loads\<close> is \<^verbatim>\<open>json.loads\<close>; \<open>py_repr\<close>
  is \<^verbatim>\<open>str()\<close> on values that are not strings.
\<close>

record env =
  llm_reply :: "nat \<Rightarrow> exn + string"
  search_reply :: "nat \<Rightarrow> exn + pyval"
  json_loads :: "string \<Rightarrow> exn + pyval"
  py_repr :: "pyval \<Rightarrow> string"

datatype status = Pending | Working | Complete

text \<open>
  What a run did, in order of occurrence within each kind: the prompts sent, the searches
  issued (query and \<^verbatim>\<open>max_results\<close>), the assignments to \<^verbatim>\<open>agent_status\<close> and the
  graph nodes entered. These lists are kept when an exception ends the run.
\<close>

record world =
  llm_log :: "prompt list"
  search_log :: "(string \<times> nat) list"
  status_log :: "(string \<times> status) list"
  node_log :: "string list"

type_synonym 'a io = "world \<Rightarrow> (exn + 'a) \<times> world"

definition returns :: "'a \<Rightarrow> 'a io" where
  "returns x w = (Inr x, w)"

definition raise :: "exn \<Rightarrow> 'a io" where
  "raise e w = (Inl e, w)"

definition lift :: "exn + 'a \<Rightarrow> 'a io" where
  "lift r w = (r, w)"

definition io_bind :: "'a io \<Rightarrow> ('a \<Rightarrow> 'b io) \<Rightarrow> 'b io" where
  "io_bind m f w = (case m w of (Inl e, w') \<Rightarrow> (Inl e, w') | (Inr x, w') \<Rightarrow> f x w')"

definition llm_invoke :: "env \<Rightarrow> prompt \<Rightarrow> string io" where
  "llm_invoke env p w = (llm_reply env (length (llm_log w)), w\<lparr>llm_log := llm_log w @ [p]\<rparr>)"

definition tavily_search :: "env \<Rightarrow> string \<Rightarrow> nat \<Rightarrow> pyval io" where
  "tavily_search env query max_results w =
     (search_reply env (length (search_log w)),
      w\<lparr>search_log := search_log w @ [(query, max_results)]\<rparr>)"

text \<open>
  The names bound at module level in \<^verbatim>\<open>main.py\<close>: its imports (lines 6 to 14), the two
  clients and its own classes and functions. \<^verbatim>\<open>json\<close> and \<^verbatim>\<open>re\<close> are not among them:
  they are imported inside \<^verbatim>\<open>firecrawl_agent\<close> (lines 96, 97) and inside
  \<^verbatim>\<open>comparison_agent\<close> (lines 294, 324), where they are local names.
\<close>

definition module_names :: "string list" where
  "module_names =
     [''os'', ''TypedDict'', ''Annotated'', ''List'', ''Dict'', ''Any'', ''add'',
      ''load_dotenv'', ''ChatAnthropic'', ''HumanMessage'', ''SystemMessage'',
      ''StateGraph'', ''END'', ''TavilyClient'', ''llm'', ''tavily'', ''AgentState'',
      ''firecrawl_agent'', ''analysis_agent'', ''comparison_agent'', ''create_workflow'',
      ''run_competitor_analysis'', ''print_results'']"

text \<open>
  Reading a name that a function does not bind itself: found at module level, or a
  \<^verbatim>\<open>NameError\<close>.
\<close>

definition load_global :: "string \<Rightarrow> unit io" where
  "load_global name = (if name \<in> set module_names then returns () else raise (NameError name))"

subsection \<open>The shared state\<close>

text \<open>
  \<^verbatim>\<open>AgentState\<close>. The fields that receive the result of \<^verbatim>\<open>json.loads\<close> hold a Python
  value, whatever their annotation says. \<^verbatim>\<open>agent_status\<close> maps the stage names to one of
  the three literals \<^verbatim>\<open>pending\<close>, \<^verbatim>\<open>working\<close>, \<^verbatim>\<open>complete\<close>.
\<close>

record agent_state =
  user_input :: string
  analysis_mode :: string
  messages :: "string list"
  search_queries :: pyval
  raw_competitors :: "pyval list"
  competitors :: pyval
  competitive_analysis :: string
  market_gaps :: "string list"
  competitor_weaknesses :: "string list"
  feature_comparison :: pyval
  strategic_recommendations :: string
  agent_status :: "string \<rightharpoonup> status"

text \<open>\<^verbatim>\<open>state["agent_status"][stage] = value\<close>, recorded in the world.\<close>

definition set_status :: "string \<Rightarrow> status \<Rightarrow> agent_state \<Rightarrow> agent_state io" where
  "set_status stage v st w =
     (Inr (st\<lparr>agent_status := (agent_status st)(stage \<mapsto> v)\<rparr>),
      w\<lparr>status_log := status_log w @ [(stage, v)]\<rparr>)"

text \<open>\<^verbatim>\<open>state["messages"].append(msg)\<close>.\<close>

definition append_message :: "string \<Rightarrow> agent_state \<Rightarrow> agent_state" where
  "append_message msg st = st\<lparr>messages := messages st @ [msg]\<rparr>"

subsection \<open>Agent 1: \<^verbatim>\<open>firecrawl_agent\<close>\<close>

text \<open>The value of \<^verbatim>\<open>f"{query}"\<close>: a string as it is, anything else through \<^verbatim>\<open>str()\<close>.\<close>

definition py_str :: "env \<Rightarrow> pyval \<Rightarrow> string" where
  "py_str env v = (case v of PyStr s \<Rightarrow> s | _ \<Rightarrow> py_repr env v)"

definition default_queries :: pyval where
  "default_queries = PyList [PyStr ''competitors'', PyStr ''alternatives'', PyStr ''similar products'']"

text \<open>The progress messages whose text depends on a count (lines 108, 139, 190 and 347).\<close>

definition planned_message :: "nat \<Rightarrow> string" where
  "planned_message n = ''[Firecrawl Agent] Planned '' @ str_nat n @ '' search strategies''"

definition found_message :: "nat \<Rightarrow> string" where
  "found_message n = ''[Firecrawl Agent] Found '' @ str_nat n @ '' potential competitors''"

definition selected_message :: "nat \<Rightarrow> string" where
  "selected_message n = ''[Firecrawl Agent] Selected top '' @ str_nat n @ '' competitors''"

definition created_message :: "nat \<Rightarrow> string" where
  "created_message n = ''[Comparison Agent] Created comparison with '' @ str_nat n @ '' features''"

text \<open>
  Lines 99 to 105. The call of \<^verbatim>\<open>json.loads\<close> on line 103 stands outside any
  \<^verbatim>\<open>try\<close>: what it raises leaves the function.
\<close>

definition parse_queries :: "env \<Rightarrow> string \<Rightarrow> exn + pyval" where
  "parse_queries env content =
     (case re_search (CHR ''['') (CHR '']'') content of
        Some m \<Rightarrow> json_loads env m
      | None \<Rightarrow> Inr default_queries)"

text \<open>Phase 1, lines 74 to 108: status, first message, planning call, query list.\<close>

definition firecrawl_plan :: "env \<Rightarrow> agent_state \<Rightarrow> agent_state io" where
  "firecrawl_plan env st =
     io_bind (set_status ''firecrawl'' Working st) (\<lambda>s1.
     let s2 = append_message ''[Firecrawl Agent] Starting competitor discovery'' s1 in
     io_bind (llm_invoke env (PlanningPrompt (user_input st))) (\<lambda>content.
     io_bind (lift (parse_queries env content)) (\<lambda>queries.
     let s3 = s2\<lparr>search_queries := queries\<rparr> in
     io_bind (lift (py_len queries)) (\<lambda>n.
     returns (append_message (planned_message n) s3)))))"

text \<open>
  Lines 127 to 132: the dictionary built from one search result. The three reads and the
  slice are evaluated in this order; the first that raises ends the construction.
\<close>

definition make_raw :: "pyval \<Rightarrow> exn + pyval" where
  "make_raw result =
     (case py_get result ''title'' (PyStr ''Unknown'') of
        Inl e \<Rightarrow> Inl e
      | Inr name \<Rightarrow>
     (case py_get result ''url'' (PyStr []) of
        Inl e \<Rightarrow> Inl e
      | Inr url \<Rightarrow>
     (case py_get result ''content'' (PyStr []) of
        Inl e \<Rightarrow> Inl e
      | Inr content \<Rightarrow>
     (case py_slice 200 content of
        Inl e \<Rightarrow> Inl e
      | Inr description \<Rightarrow>
          Inr (PyDict [(''name'', name), (''url'', url), (''description'', description),
                       (''source'', PyStr ''web_search'')])))))"

text \<open>
  The inner loop, lines 126 to 132: \<^verbatim>\<open>all_competitors\<close> is appended to in place, so
  the entries made before an exception stay. The result is the exception, if any, and
  the list.
\<close>

fun append_results :: "pyval list \<Rightarrow> pyval list \<Rightarrow> exn option \<times> pyval list" where
  "append_results [] acc = (None, acc)"
| "append_results (r # rs) acc =
     (case make_raw r of
        Inl e \<Rightarrow> (Some e, acc)
      | Inr c \<Rightarrow> append_results rs (acc @ [c]))"

text \<open>
  Lines 126 to 132 inside the \<^verbatim>\<open>try\<close>: what \<^verbatim>\<open>all_competitors\<close> is once the results
  of one search have been read, whether an exception cut the reading short or not.
\<close>

definition read_results :: "pyval \<Rightarrow> pyval list \<Rightarrow> pyval list" where
  "read_results search_results acc =
     (case py_get search_results ''results'' (PyList []) of
        Inl e \<Rightarrow> acc
      | Inr results \<Rightarrow>
          (case py_iter results of
             Inl e \<Rightarrow> acc
           | Inr rs \<Rightarrow> snd (append_results rs acc)))"

text \<open>
  One round of the outer loop, lines 116 to 136: the \<^verbatim>\<open>try\<close> block around the search
  and the reading of its results. \<^verbatim>\<open>except Exception\<close> prints the exception to the
  console and goes on to the next query; nothing is written to the state there.
\<close>

definition search_once :: "env \<Rightarrow> string \<Rightarrow> pyval \<Rightarrow> pyval list \<Rightarrow> pyval list io" where
  "search_once env u query acc w =
     (case tavily_search env (py_str env query @ '' '' @ u) 3 w of
        (Inl e, w') \<Rightarrow> (Inr acc, w')
      | (Inr search_results, w') \<Rightarrow> (Inr (read_results search_results acc), w'))"

fun run_searches :: "env \<Rightarrow> string \<Rightarrow> pyval list \<Rightarrow> pyval list \<Rightarrow> pyval list io" where
  "run_searches env u [] acc = returns acc"
| "run_searches env u (q # qs) acc = io_bind (search_once env u q acc) (run_searches env u qs)"

text \<open>Phase 2, lines 113 to 139: the loop over \<^verbatim>\<open>queries[:3]\<close> and its message.\<close>

definition firecrawl_search :: "env \<Rightarrow> agent_state \<Rightarrow> agent_state io" where
  "firecrawl_search env st =
     io_bind (lift (py_slice 3 (search_queries st))) (\<lambda>first3.
     io_bind (lift (py_iter first3)) (\<lambda>qs.
     io_bind (run_searches env (user_input st) qs []) (\<lambda>all_competitors.
     returns (append_message (found_message (length all_competitors))
       (st\<lparr>raw_competitors := all_competitors\<rparr>)))))"

definition placeholder_competitor :: pyval where
  "placeholder_competitor =
     PyDict [(''name'', PyStr ''Competitor A''), (''url'', PyStr ''competitor-a.com''),
             (''description'', PyStr ''Leading market player''), (''category'', PyStr ''SaaS''),
             (''relevanceScore'', PyInt 8), (''marketPosition'', PyStr ''leader''),
             (''relevanceReason'', PyStr ''Direct competitor'')]"

text \<open>Lines 167 to 187: the bare \<^verbatim>\<open>except\<close> turns whatever \<^verbatim>\<open>json.loads\<close> raises into the placeholder.\<close>

definition parse_competitors :: "env \<Rightarrow> string \<Rightarrow> pyval" where
  "parse_competitors env content =
     (case re_search (CHR ''['') (CHR '']'') content of
        Some m \<Rightarrow> (case json_loads env m of
                     Inr v \<Rightarrow> v
                   | Inl e \<Rightarrow> PyList [placeholder_competitor])
      | None \<Rightarrow> PyList [])"

text \<open>Phase 3, lines 144 to 191: ranking call, competitor list, last message, status.\<close>

definition firecrawl_rank :: "env \<Rightarrow> agent_state \<Rightarrow> agent_state io" where
  "firecrawl_rank env st =
     io_bind (llm_invoke env (RankingPrompt (user_input st) (take 10 (raw_competitors st)))) (\<lambda>content.
     let s1 = st\<lparr>competitors := parse_competitors env content\<rparr> in
     io_bind (lift (py_len (competitors s1))) (\<lambda>n.
     set_status ''firecrawl'' Complete (append_message (selected_message n) s1)))"

definition firecrawl_agent :: "env \<Rightarrow> agent_state \<Rightarrow> agent_state io" where
  "firecrawl_agent env st =
     io_bind (firecrawl_plan env st) (\<lambda>s1.
     io_bind (firecrawl_search env s1) (\<lambda>s2.
     firecrawl_rank env s2))"

subsection \<open>Agent 2: \<^verbatim>\<open>analysis_agent\<close>\<close>

definition default_gaps :: "string list" where
  "default_gaps = [''Underserved market segments'', ''Feature gaps in existing solutions'']"

definition default_weaknesses :: "string list" where
  "default_weaknesses = [''Pricing complexity'', ''Limited features'']"

text \<open>Lines 250 to 267: what the function does with the narrative once it has one.\<close>

definition analysis_extract :: "string \<Rightarrow> agent_state \<Rightarrow> agent_state io" where
  "analysis_extract analysis st =
     (let s1 = st\<lparr>competitive_analysis := analysis\<rparr> in
      io_bind (lift (extract_section ''Market Positioning & Gaps'' default_gaps analysis)) (\<lambda>gaps.
      let s2 = s1\<lparr>market_gaps := gaps\<rparr> in
      io_bind (lift (extract_section ''Competitor Weaknesses'' default_weaknesses analysis)) (\<lambda>weak.
      let s3 = s2\<lparr>competitor_weaknesses := weak\<rparr> in
      set_status ''analysis'' Complete
        (append_message ''[Analysis Agent] Generated comprehensive analysis'' s3))))"

text \<open>
  Lines 208 to 267. The prompt of lines 215 to 242 evaluates
  \<^verbatim>\<open>json.dumps(competitors, indent=2)\<close>; this function has no import of its own, so
  \<^verbatim>\<open>json\<close> is read as a global name.
\<close>

definition analysis_agent :: "env \<Rightarrow> agent_state \<Rightarrow> agent_state io" where
  "analysis_agent env st =
     io_bind (set_status ''analysis'' Working st) (\<lambda>s1.
     let s2 = append_message ''[Analysis Agent] Starting competitive analysis'' s1 in
     io_bind (load_global ''json'') (\<lambda>_.
     io_bind (llm_invoke env (AnalysisPrompt (user_input st) (competitors st))) (\<lambda>analysis.
     analysis_extract analysis s2)))"

subsection \<open>Agent 3: \<^verbatim>\<open>comparison_agent\<close>\<close>

definition placeholder_comparison :: pyval where
  "placeholder_comparison =
     PyDict [(''features'', PyList [
       PyDict [(''name'', PyStr ''AI Features''), (''yourOpportunity'', PyStr ''Build''),
               (''competitors'', PyDict [(''Competitor A'', PyStr ''Partial'')]),
               (''strategicValue'', PyStr ''Differentiation''),
               (''implementationComplexity'', PyStr ''Medium'')]])]"

definition empty_comparison :: pyval where
  "empty_comparison = PyDict [(''features'', PyList [])]"

text \<open>Lines 325 to 344.\<close>

definition parse_comparison :: "env \<Rightarrow> string \<Rightarrow> pyval" where
  "parse_comparison env content =
     (case re_search (CHR ''{'') (CHR ''}'') content of
        Some m \<Rightarrow> (case json_loads env m of
                     Inr v \<Rightarrow> v
                   | Inl e \<Rightarrow> placeholder_comparison)
      | None \<Rightarrow> empty_comparison)"

text \<open>Phase 1, lines 288 to 347: the feature matrix and its message.\<close>

definition comparison_matrix :: "env \<Rightarrow> agent_state \<Rightarrow> agent_state io" where
  "comparison_matrix env st =
     io_bind (set_status ''comparison'' Working st) (\<lambda>s1.
     let s2 = append_message ''[Comparison Agent] Creating feature comparison'' s1 in
     io_bind (llm_invoke env (ComparisonPrompt (user_input st) (competitors st))) (\<lambda>content.
     let s3 = s2\<lparr>feature_comparison := parse_comparison env content\<rparr> in
     io_bind (lift (py_get (feature_comparison s3) ''features'' (PyList []))) (\<lambda>features.
     io_bind (lift (py_len features)) (\<lambda>n.
     returns (append_message (created_message n) s3)))))"

text \<open>Phase 2, lines 352 to 383: the recommendations, their message, the status.\<close>

definition comparison_strategy :: "env \<Rightarrow> agent_state \<Rightarrow> agent_state io" where
  "comparison_strategy env st =
     io_bind (llm_invoke env (StrategyPrompt (user_input st)
                (take 2000 (competitive_analysis st)) (feature_comparison st))) (\<lambda>recommendations.
     set_status ''comparison'' Complete
       (append_message ''[Comparison Agent] Generated strategic recommendations''
          (st\<lparr>strategic_recommendations := recommendations\<rparr>)))"

definition comparison_agent :: "env \<Rightarrow> agent_state \<Rightarrow> agent_state io" where
  "comparison_agent env st =
     io_bind (comparison_matrix env st) (\<lambda>s1. comparison_strategy env s1)"

subsection \<open>The workflow and the driver\<close>

text \<open>
  \<^verbatim>\<open>create_workflow\<close> declares three nodes, an entry point and three edges; none of the
  edges is conditional. The compiled graph runs the entry node, then the node its edge
  points to, until it reaches \<^verbatim>\<open>END\<close>; LangGraph stops a run that has not finished
  after \<^verbatim>\<open>recursion_limit\<close> steps (25 unless configured) with a
  \<^verbatim>\<open>GraphRecursionError\<close>.
\<close>

definition END :: string where
  "END = ''__end__''"

record workflow =
  nodes :: "(string \<times> (env \<Rightarrow> agent_state \<Rightarrow> agent_state io)) list"
  entry_point :: string
  edges :: "(string \<times> string) list"

definition create_workflow :: workflow where
  "create_workflow =
     \<lparr>nodes = [(''firecrawl'', firecrawl_agent), (''analysis'', analysis_agent),
               (''comparison'', comparison_agent)],
      entry_point = ''firecrawl'',
      edges = [(''firecrawl'', ''analysis''), (''analysis'', ''comparison''),
               (''comparison'', END)]\<rparr>"

text \<open>
  What the graph does with the dictionary a node returns. Every key but \<^verbatim>\<open>messages\<close>
  takes the returned value. \<^verbatim>\<open>messages\<close> is declared
  \<^verbatim>\<open>Annotated[List[str], add]\<close> (line 41), so the graph stores
  \<^verbatim>\<open>add(current, returned)\<close>. The agents append to the current list itself, which
  they hold by reference, and return it: both arguments are that one list. No property
  below depends on what the graph stores for \<^verbatim>\<open>messages\<close>.
\<close>

definition apply_writes :: "agent_state \<Rightarrow> agent_state" where
  "apply_writes returned = returned\<lparr>messages := messages returned @ messages returned\<rparr>"

definition enter_node :: "string \<Rightarrow> unit io" where
  "enter_node name w = (Inr (), w\<lparr>node_log := node_log w @ [name]\<rparr>)"

definition recursion_limit :: nat where
  "recursion_limit = 25"

fun run_from :: "nat \<Rightarrow> workflow \<Rightarrow> env \<Rightarrow> string \<Rightarrow> agent_state \<Rightarrow> agent_state io" where
  "run_from 0 g env node st = raise GraphRecursionError"
| "run_from (Suc fuel) g env node st =
     (if node = END then returns st
      else (case map_of (nodes g) node of
              None \<Rightarrow> raise ValueError
            | Some agent \<Rightarrow>
                io_bind (enter_node node) (\<lambda>_.
                io_bind (agent env st) (\<lambda>returned.
                (case map_of (edges g) node of
                   None \<Rightarrow> returns (apply_writes returned)
                 | Some next_node \<Rightarrow> run_from fuel g env next_node (apply_writes returned))))))"

definition invoke :: "workflow \<Rightarrow> env \<Rightarrow> agent_state \<Rightarrow> agent_state io" where
  "invoke g env st = run_from recursion_limit g env (entry_point g) st"

text \<open>Lines 437 to 454.\<close>

definition initial_state :: "string \<Rightarrow> string \<Rightarrow> agent_state" where
  "initial_state u mode =
     \<lparr>user_input = u, analysis_mode = mode, messages = [],
      search_queries = PyList [], raw_competitors = [], competitors = PyList [],
      competitive_analysis = [], market_gaps = [], competitor_weaknesses = [],
      feature_comparison = PyDict [], strategic_recommendations = [],
      agent_status = [''firecrawl'' \<mapsto> Pending, ''analysis'' \<mapsto> Pending,
                      ''comparison'' \<mapsto> Pending]\<rparr>"

definition run_competitor_analysis :: "env \<Rightarrow> string \<Rightarrow> string \<Rightarrow> agent_state io" where
  "run_competitor_analysis env u mode = invoke create_workflow env (initial_state u mode)"

subsection \<open>Notions used to state the properties\<close>

text \<open>
  A text has a bracketed span when an opening bracket is followed, anywhere later, by a
  closing one: the texts in which the regular expression finds something.
\<close>

definition has_span :: "char \<Rightarrow> char \<Rightarrow> string \<Rightarrow> bool" where
  "has_span l r s = (\<exists>pre mid post. s = pre @ l # mid @ r # post)"

text \<open>
  The part of a text before the first occurrence of \<open>sep\<close> (the whole text when there
  is none), and the part after that occurrence.
\<close>

fun text_before :: "string \<Rightarrow> string \<Rightarrow> string" where
  "text_before sep [] = []"
| "text_before sep (c # cs) = (if prefix sep (c # cs) then [] else c # text_before sep cs)"

fun text_after :: "string \<Rightarrow> string \<Rightarrow> string" where
  "text_after sep [] = []"
| "text_after sep (c # cs) =
     (if prefix sep (c # cs) then drop (length sep) (c # cs) else text_after sep cs)"

definition occurs_in :: "string \<Rightarrow> string \<Rightarrow> bool" where
  "occurs_in sub s = (\<exists>pre post. s = pre @ sub @ post)"

text \<open>
  The lines of a section that are kept: stripped, those with a character that is no
  white space and with more than 20 characters before stripping, five at most.
\<close>

definition kept_lines :: "string \<Rightarrow> string list" where
  "kept_lines txt =
     take 5 (map strip
       (filter (\<lambda>line. (\<exists>c \<in> set line. \<not> isspace c) \<and> 20 < length line)
          (py_split newline txt)))"

text \<open>
  The section under a heading: what follows the first occurrence of the heading text, up
  to the next occurrence of that text or of \<^verbatim>\<open>##\<close>, whichever comes first.
\<close>

definition section_under :: "string \<Rightarrow> string \<Rightarrow> string" where
  "section_under heading narrative =
     text_before ''##'' (text_before heading (text_after heading narrative))"

definition section_lines :: "string \<Rightarrow> string list \<Rightarrow> string \<Rightarrow> string list" where
  "section_lines heading dflt narrative =
     (if occurs_in heading narrative then kept_lines (section_under heading narrative) else dflt)"

text \<open>
  What one search adds to \<^verbatim>\<open>all_competitors\<close>: nothing when the call raised, else the
  entries read from its reply.
\<close>

definition contribution :: "exn + pyval \<Rightarrow> pyval list" where
  "contribution reply = (case reply of Inl e \<Rightarrow> [] | Inr r \<Rightarrow> read_results r [])"

text \<open>The world after the planning phase, however the phase ended.\<close>

definition plan_world :: "agent_state \<Rightarrow> world \<Rightarrow> world" where
  "plan_world st w = w\<lparr>llm_log := llm_log w @ [PlanningPrompt (user_input st)],
                        status_log := status_log w @ [(''firecrawl'', Working)]\<rparr>"

text \<open>
  The order of the three status values, and what it means for a sequence of assignments
  to \<^verbatim>\<open>agent_status\<close>, applied to a given map, never to move an entry backward.
\<close>

fun status_rank :: "status \<Rightarrow> nat" where
  "status_rank Pending = 0"
| "status_rank Working = 1"
| "status_rank Complete = 2"

fun forward_only :: "(string \<rightharpoonup> status) \<Rightarrow> (string \<times> status) list \<Rightarrow> bool" where
  "forward_only m [] = True"
| "forward_only m ((stage, v) # ws) =
     ((case m stage of None \<Rightarrow> True | Some old \<Rightarrow> status_rank old \<le> status_rank v) \<and>
      forward_only (m(stage \<mapsto> v)) ws)"

subsection \<open>Stub services for concrete runs\<close>

text \<open>
  Test doubles. \<open>test_env\<close> builds the services from the replies of the inference
  service, the replies of the search service and a parser. \<open>search_down\<close> is a search
  service of which every call raises; \<open>no_json\<close> is \<^verbatim>\<open>json.loads\<close> on texts that are no
  JSON, as every text is that it receives in the runs below.
\<close>

definition test_env ::
  "(nat \<Rightarrow> exn + string) \<Rightarrow> (nat \<Rightarrow> exn + pyval) \<Rightarrow> (string \<Rightarrow> exn + pyval) \<Rightarrow> env" where
  "test_env replies searches loads =
     \<lparr>llm_reply = replies, search_reply = searches, json_loads = loads,
      py_repr = (\<lambda>v. ''?'')\<rparr>"

definition search_down :: "nat \<Rightarrow> exn + pyval" where
  "search_down k = Inl (ServiceError ''search failed'')"

definition no_json :: "string \<Rightarrow> exn + pyval" where
  "no_json s = Inl JSONDecodeError"

definition empty_world :: world where
  "empty_world = \<lparr>llm_log = [], search_log = [], status_log = [], node_log = []\<rparr>"

definition env_prose :: env where
  "env_prose = test_env (\<lambda>k. Inr ''plain prose'') search_down no_json"

definition env_bad_ranking :: env where
  "env_bad_ranking =
     test_env (\<lambda>k. if k = 0 then Inr ''plain prose'' else Inr ''[ {invalid json ]'')
       search_down no_json"

text \<open>
  Four planned queries, as the planning prompt asks for, and a parser that knows this
  one text.
\<close>

definition four_queries :: string where
  \<open>four_queries = ''["crm tools", "crm rivals", "sales apps", "new crm"]''\<close>

definition loads_four :: "string \<Rightarrow> exn + pyval" where
  "loads_four s =
     (if s = four_queries
      then Inr (PyList [PyStr ''crm tools'', PyStr ''crm rivals'', PyStr ''sales apps'',
                        PyStr ''new crm''])
      else Inl JSONDecodeError)"

definition env_four :: env where
  "env_four = test_env (\<lambda>k. if k = 0 then Inr four_queries else Inr ''plain prose'')
                search_down loads_four"

text \<open>
  A search service whose first and third call raise and whose second call returns one
  result.
\<close>

definition acme_reply :: pyval where
  "acme_reply =
     PyDict [(''results'', PyList [
       PyDict [(''title'', PyStr ''Acme CRM''), (''url'', PyStr ''acme.example''),
               (''content'', PyStr ''CRM for small teams'')]])]"

definition search_flaky :: "nat \<Rightarrow> exn + pyval" where
  "search_flaky k = (if k = 1 then Inr acme_reply else Inl (ServiceError ''search failed''))"

definition env_flaky :: env where
  "env_flaky = test_env (\<lambda>k. Inr ''plain prose'') search_flaky no_json"

text \<open>A planning reply whose bracketed span is no JSON.\<close>

definition env_bad_planning :: env where
  "env_bad_planning =
     test_env (\<lambda>k. Inr ''Queries: [crm tools, crm rivals]'') search_down no_json"

text \<open>
  A ranking reply that is a JSON array of two strings, and a parser that knows this one
  text.
\<close>

definition two_names :: string where
  \<open>two_names = ''["Acme", "Globex"]''\<close>

definition loads_names :: "string \<Rightarrow> exn + pyval" where
  "loads_names s =
     (if s = two_names then Inr (PyList [PyStr ''Acme'', PyStr ''Globex''])
      else Inl JSONDecodeError)"

definition env_names :: env where
  "env_names = test_env (\<lambda>k. if k = 0 then Inr ''plain prose'' else Inr two_names)
                 search_down loads_names"

text \<open>The fields of a competitor record as the ranking prompt asks for them.\<close>

definition competitor_fields :: "string list" where
  "competitor_fields = [''name'', ''url'', ''description'', ''category'', ''relevanceScore'',
                        ''marketPosition'', ''relevanceReason'']"

text \<open>A matrix reply whose span in braces is no JSON.\<close>

definition env_bad_matrix :: env where
  "env_bad_matrix = test_env (\<lambda>k. Inr ''{ features: none }'') search_down no_json"

text \<open>
  Two narratives with both headings: one whose first section has only a short line, one
  whose first section has a short line padded with blanks.
\<close>

definition short_narrative :: string where
  "short_narrative =
     ''## Market Positioning & Gaps'' @ newline @ ''Too short.'' @ newline @
     ''## Competitor Weaknesses'' @ newline @ ''None.''"

definition padded_line :: string where
  "padded_line = ''   Niche CRM gap              ''"

definition padded_narrative :: string where
  "padded_narrative =
     ''## Market Positioning & Gaps'' @ newline @ padded_line @ newline @
     ''## Competitor Weaknesses'' @ newline @ ''None.''"

text \<open>
  A narrative with six long lines under the first heading and without the second
  heading.
\<close>

definition long_narrative :: string where
  "long_narrative =
     ''## Market Positioning & Gaps'' @ newline @
     ''Enterprise suites ignore small teams'' @ newline @
     ''- pricing'' @ newline @
     ''No vendor offers offline access'' @ newline @
     ''Onboarding takes weeks, not hours'' @ newline @
     ''Reporting is an expensive add-on'' @ newline @
     ''Mobile clients lag behind the web'' @ newline @
     ''Integrations stop at the big three'' @ newline @
     ''## Pricing & Business Model Insights'' @ newline @
     ''Most vendors charge per seat and month''"

text \<open>
  Inference services that answer every call with a narrative holding both headings: the
  one with six long lines, and the one with the padded line.
\<close>

definition env_long :: env where
  "env_long = test_env (\<lambda>k. Inr long_narrative) search_down no_json"

definition env_padded :: env where
  "env_padded = test_env (\<lambda>k. Inr padded_narrative) search_down no_json"

section \<open>Properties\<close>

subsection \<open>The monad\<close>

lemma io_bind_returns [simp]: "io_bind (returns x) f = f x"
  by (simp add: io_bind_def returns_def fun_eq_iff)

lemma io_bind_raise [simp]: "io_bind (raise e) f = raise e"
  by (simp add: io_bind_def raise_def fun_eq_iff)

lemma io_bind_lift_Inr [simp]: "io_bind (lift (Inr x)) f = f x"
  by (simp add: io_bind_def lift_def fun_eq_iff)

lemma io_bind_lift_Inl [simp]: "io_bind (lift (Inl e)) f = raise e"
  by (simp add: io_bind_def lift_def raise_def fun_eq_iff)

lemma io_bind_set_status [simp]:
  "io_bind (set_status stage v st) f w =
     f (st\<lparr>agent_status := (agent_status st)(stage \<mapsto> v)\<rparr>)
       (w\<lparr>status_log := status_log w @ [(stage, v)]\<rparr>)"
  by (simp add: io_bind_def set_status_def)

lemma io_bind_llm_invoke:
  "io_bind (llm_invoke env p) f w =
     (case llm_reply env (length (llm_log w)) of
        Inl e \<Rightarrow> (Inl e, w\<lparr>llm_log := llm_log w @ [p]\<rparr>)
      | Inr c \<Rightarrow> f c (w\<lparr>llm_log := llm_log w @ [p]\<rparr>))"
  by (simp add: io_bind_def llm_invoke_def split: sum.splits)

lemmas io_defs = io_bind_def returns_def raise_def lift_def llm_invoke_def tavily_search_def
  set_status_def append_message_def load_global_def enter_node_def

lemmas firecrawl_defs = firecrawl_agent_def firecrawl_plan_def firecrawl_search_def
  firecrawl_rank_def parse_queries_def parse_competitors_def search_once_def read_results_def make_raw_def
  default_queries_def py_str_def

lemmas stub_defs = test_env_def search_down_def no_json_def empty_world_def initial_state_def

lemmas message_defs = planned_message_def found_message_def selected_message_def
  created_message_def str_nat.simps

subsection \<open>What the regular expression finds\<close>

lemma has_spanI: "s = pre @ l # mid @ r # post \<Longrightarrow> has_span l r s"
  unfolding has_span_def by (intro exI)

lemma dropWhile_neq_Cons:
  assumes "dropWhile (\<lambda>c. c \<noteq> l) s = x # body"
  shows "x = l \<and> s = takeWhile (\<lambda>c. c \<noteq> l) s @ l # body"
proof -
  have "\<not> (hd (dropWhile (\<lambda>c. c \<noteq> l) s) \<noteq> l)"
    by (rule hd_dropWhile) (simp add: assms)
  then have "x = l" by (simp add: assms)
  moreover have "takeWhile (\<lambda>c. c \<noteq> l) s @ dropWhile (\<lambda>c. c \<noteq> l) s = s" by simp
  ultimately show ?thesis using assms by simp
qed

lemma closer_after_first_opener:
  assumes "tw @ l # body = pre @ l # mid @ r # post" and "l \<notin> set tw"
  shows "r \<in> set body"
proof -
  from assms(1) obtain us where
    "(tw = pre @ us \<and> us @ l # body = l # mid @ r # post) \<or>
     (tw @ us = pre \<and> l # body = us @ l # mid @ r # post)"
    by (auto simp: append_eq_append_conv2)
  then show ?thesis
  proof
    assume a: "tw = pre @ us \<and> us @ l # body = l # mid @ r # post"
    show ?thesis
    proof (cases us)
      case Nil with a show ?thesis by auto
    next
      case (Cons u us') with a assms(2) show ?thesis by auto
    qed
  next
    assume a: "tw @ us = pre \<and> l # body = us @ l # mid @ r # post"
    show ?thesis
    proof (cases us)
      case Nil with a show ?thesis by auto
    next
      case (Cons u us') with a show ?thesis by auto
    qed
  qed
qed

text \<open>The search fails exactly on the texts without a bracketed span.\<close>

lemma re_search_None_iff: "re_search l r s = None \<longleftrightarrow> \<not> has_span l r s"
proof (cases "dropWhile (\<lambda>c. c \<noteq> l) s")
  case Nil
  then have "l \<notin> set s" by (auto simp: dropWhile_eq_Nil_conv)
  then have "\<not> has_span l r s" by (auto simp: has_span_def)
  then show ?thesis by (simp add: re_search_def Nil)
next
  case (Cons x body)
  have x: "x = l" and s: "s = takeWhile (\<lambda>c. c \<noteq> l) s @ l # body"
    using dropWhile_neq_Cons[OF Cons] by simp_all
  have notin: "l \<notin> set (takeWhile (\<lambda>c. c \<noteq> l) s)"
    by (auto dest: set_takeWhileD)
  show ?thesis
  proof (cases "r \<in> set body")
    case True
    then obtain mid post where "body = mid @ r # post" using split_list by fastforce
    with s have "s = takeWhile (\<lambda>c. c \<noteq> l) s @ l # mid @ r # post" by simp
    then have "has_span l r s" by (rule has_spanI)
    with Cons True show ?thesis by (simp add: re_search_def)
  next
    case False
    have "\<not> has_span l r s"
    proof
      assume "has_span l r s"
      then obtain pre mid post where "s = pre @ l # mid @ r # post" by (auto simp: has_span_def)
      with s have "takeWhile (\<lambda>c. c \<noteq> l) s @ l # body = pre @ l # mid @ r # post" by simp
      from closer_after_first_opener[OF this notin] False show False by simp
    qed
    with Cons False show ?thesis by (simp add: re_search_def)
  qed
qed

lemma cut_after_last:
  assumes "r \<in> set body"
  shows "\<exists>mid post. body = mid @ r # post \<and> r \<notin> set post \<and>
           rev (dropWhile (\<lambda>c. c \<noteq> r) (rev body)) = mid @ [r]"
proof -
  from assms obtain mid post where b: "body = mid @ r # post" and n: "r \<notin> set post"
    using split_list_last by fastforce
  have "dropWhile (\<lambda>c. c \<noteq> r) (rev post @ r # rev mid) = r # rev mid"
    using n by (auto simp: dropWhile_append3)
  with b n show ?thesis by auto
qed

text \<open>
  What is found runs from the first opening bracket of the text to its last closing
  bracket.
\<close>

lemma re_search_Some:
  assumes "re_search l r s = Some m"
  shows "\<exists>pre mid post. s = pre @ m @ post \<and> m = l # mid @ [r] \<and> l \<notin> set pre \<and> r \<notin> set post"
proof (cases "dropWhile (\<lambda>c. c \<noteq> l) s")
  case Nil with assms show ?thesis by (simp add: re_search_def)
next
  case (Cons x body)
  have s: "s = takeWhile (\<lambda>c. c \<noteq> l) s @ l # body"
    using dropWhile_neq_Cons[OF Cons] by simp
  have notin: "l \<notin> set (takeWhile (\<lambda>c. c \<noteq> l) s)"
    by (auto dest: set_takeWhileD)
  from assms Cons have r: "r \<in> set body" and m: "m = l # rev (dropWhile (\<lambda>c. c \<noteq> r) (rev body))"
    by (auto simp: re_search_def split: if_splits)
  from cut_after_last[OF r] obtain mid post where
    b: "body = mid @ r # post" "r \<notin> set post" "rev (dropWhile (\<lambda>c. c \<noteq> r) (rev body)) = mid @ [r]"
    by blast
  have "s = takeWhile (\<lambda>c. c \<noteq> l) s @ m @ post" using s b m by simp
  with b m notin show ?thesis by blast
qed

subsection \<open>Discovery: the searches\<close>

lemma py_str_PyStr [simp]: "py_str env (PyStr q) = q"
  by (simp add: py_str_def)

lemma append_results_acc: "snd (append_results rs acc) = acc @ snd (append_results rs [])"
proof (induction rs arbitrary: acc)
  case Nil
  show ?case by simp
next
  case (Cons r rs)
  show ?case
  proof (cases "make_raw r")
    case (Inl e)
    then show ?thesis by simp
  next
    case (Inr c)
    have "snd (append_results (r # rs) acc) = snd (append_results rs (acc @ [c]))"
      by (simp add: Inr)
    also have "\<dots> = (acc @ [c]) @ snd (append_results rs [])" by (rule Cons.IH)
    also have "\<dots> = acc @ snd (append_results rs [c])"
      using Cons.IH[of "[c]"] by simp
    finally show ?thesis by (simp add: Inr)
  qed
qed

lemma read_results_acc: "read_results r acc = acc @ read_results r []"
  using append_results_acc[of _ acc]
  by (simp add: read_results_def split: sum.splits)

text \<open>One round never raises: it logs the call and appends what the call contributed.\<close>

lemma search_once_result:
  "search_once env u q acc w =
     (Inr (acc @ contribution (search_reply env (length (search_log w)))),
      w\<lparr>search_log := search_log w @ [(py_str env q @ '' '' @ u, 3)]\<rparr>)"
  using read_results_acc[of _ acc]
  by (simp add: search_once_def tavily_search_def contribution_def split: sum.splits)

lemma run_searches_result:
  "run_searches env u qs acc w =
     (Inr (acc @ concat (map (\<lambda>i. contribution (search_reply env (length (search_log w) + i)))
                          [0..<length qs])),
      w\<lparr>search_log := search_log w @ map (\<lambda>q. (py_str env q @ '' '' @ u, 3)) qs\<rparr>)"
proof (induction qs arbitrary: acc w)
  case Nil
  show ?case by (simp add: returns_def)
next
  case (Cons q qs)
  let ?w = "w\<lparr>search_log := search_log w @ [(py_str env q @ '' '' @ u, 3)]\<rparr>"
  have len: "length (search_log ?w) = Suc (length (search_log w))" by simp
  have "run_searches env u (q # qs) acc w =
          run_searches env u qs (acc @ contribution (search_reply env (length (search_log w)))) ?w"
    by (simp add: io_bind_def search_once_result)
  then show ?case
    by (simp add: Cons.IH len map_upt_Suc del: upt_Suc)
qed

lemma firecrawl_search_result:
  assumes "search_queries st = PyList qs"
  shows "firecrawl_search env st w =
     (let found = concat (map (\<lambda>i. contribution (search_reply env (length (search_log w) + i)))
                          [0..<min 3 (length qs)])
      in (Inr (st\<lparr>raw_competitors := found,
                   messages := messages st @ [found_message (length found)]\<rparr>),
          w\<lparr>search_log := search_log w @
                map (\<lambda>q. (py_str env q @ '' '' @ user_input st, 3)) (take 3 qs)\<rparr>))"
  using assms
  by (simp add: firecrawl_search_def run_searches_result io_bind_def returns_def append_message_def
      Let_def min.commute)

lemma firecrawl_plan_result:
  "firecrawl_plan env st w =
     (case llm_reply env (length (llm_log w)) of
        Inl e \<Rightarrow> (Inl e, plan_world st w)
      | Inr content \<Rightarrow>
          (case parse_queries env content of
             Inl e \<Rightarrow> (Inl e, plan_world st w)
           | Inr queries \<Rightarrow>
               (case py_len queries of
                  Inl e \<Rightarrow> (Inl e, plan_world st w)
                | Inr n \<Rightarrow>
                    (Inr (st\<lparr>agent_status := (agent_status st)(''firecrawl'' \<mapsto> Working),
                             search_queries := queries,
                             messages := messages st @
                               [''[Firecrawl Agent] Starting competitor discovery'',
                                planned_message n]\<rparr>),
                     plan_world st w))))"
  by (simp add: firecrawl_plan_def io_bind_llm_invoke plan_world_def append_message_def Let_def
      raise_def returns_def split: sum.splits)

lemma firecrawl_plan_world: "snd (firecrawl_plan env st w) = plan_world st w"
  by (simp add: firecrawl_plan_result split: sum.splits)

lemma firecrawl_plan_user_input:
  "firecrawl_plan env st w = (Inr s1, w1) \<Longrightarrow> user_input s1 = user_input st"
  by (auto simp: firecrawl_plan_result split: sum.splits)

lemma firecrawl_rank_result:
  "firecrawl_rank env st w =
     (let w1 = w\<lparr>llm_log := llm_log w @
                  [RankingPrompt (user_input st) (take 10 (raw_competitors st))]\<rparr>
      in case llm_reply env (length (llm_log w)) of
           Inl e \<Rightarrow> (Inl e, w1)
         | Inr content \<Rightarrow>
             (case py_len (parse_competitors env content) of
                Inl e \<Rightarrow> (Inl e, w1)
              | Inr n \<Rightarrow>
                  (Inr (st\<lparr>competitors := parse_competitors env content,
                           messages := messages st @ [selected_message n],
                           agent_status := (agent_status st)(''firecrawl'' \<mapsto> Complete)\<rparr>),
                   w1\<lparr>status_log := status_log w @ [(''firecrawl'', Complete)]\<rparr>)))"
  by (simp add: firecrawl_rank_def io_bind_llm_invoke append_message_def set_status_def Let_def
      raise_def split: sum.splits)

lemma firecrawl_rank_search_log: "search_log (snd (firecrawl_rank env st w)) = search_log w"
  by (simp add: firecrawl_rank_result Let_def split: sum.splits)

text \<open>
  Claim C6. When the planning phase has produced the query list \<open>qs\<close>, the searches the
  agent issues are, in order, one for each of the first three queries of \<open>qs\<close>: the
  query as the f-string prints it, a space and the business input, with
  \<^verbatim>\<open>max_results\<close> 3. Their number is the smaller of the length of \<open>qs\<close> and 3. For
  a list of strings the query text is the string itself. This holds of the world the
  agent leaves behind, whether or not the ranking call that follows the searches
  succeeds.
\<close>

theorem search_calls_capped:
  assumes plan: "firecrawl_plan env st w = (Inr s1, w1)"
      and qs: "search_queries s1 = PyList qs"
  shows "search_log (snd (firecrawl_agent env st w)) =
           search_log w @ map (\<lambda>q. (py_str env q @ '' '' @ user_input st, 3)) (take 3 qs) \<and>
         length (search_log (snd (firecrawl_agent env st w))) =
           length (search_log w) + min (length qs) 3 \<and>
         length (search_log (snd (firecrawl_agent env st w))) \<le> length (search_log w) + 3 \<and>
         (\<forall>ss. qs = map PyStr ss \<longrightarrow>
            search_log (snd (firecrawl_agent env st w)) =
              search_log w @ map (\<lambda>s. (s @ '' '' @ user_input st, 3)) (take 3 ss))"
proof -
  have w1: "search_log w1 = search_log w"
    using firecrawl_plan_world[of env st w] plan by (simp add: plan_world_def)
  have u: "user_input s1 = user_input st"
    using plan by (rule firecrawl_plan_user_input)
  obtain s2 w2 where search: "firecrawl_search env s1 w1 = (Inr s2, w2)"
    and w2: "search_log w2 = search_log w1 @
        map (\<lambda>q. (py_str env q @ '' '' @ user_input s1, 3)) (take 3 qs)"
    using firecrawl_search_result[OF qs, of env w1] by (simp add: Let_def)
  have "firecrawl_agent env st w = firecrawl_rank env s2 w2"
    using plan search by (simp add: firecrawl_agent_def io_bind_def)
  then have "search_log (snd (firecrawl_agent env st w)) = search_log w2"
    by (simp add: firecrawl_rank_search_log)
  with w1 w2 u have log: "search_log (snd (firecrawl_agent env st w)) =
      search_log w @ map (\<lambda>q. (py_str env q @ '' '' @ user_input st, 3)) (take 3 qs)"
    by simp
  have strings: "map (\<lambda>q. (py_str env q @ '' '' @ user_input st, 3::nat)) (take 3 (map PyStr ss)) =
      map (\<lambda>s. (s @ '' '' @ user_input st, 3::nat)) (take 3 ss)" for ss
    by (simp add: take_map comp_def)
  show ?thesis
    using log strings by simp
qed

text \<open>
  Four queries planned, three searches issued: the first three queries, each followed by
  the business input.
\<close>

theorem search_calls_capped_witness:
  "search_log (snd (firecrawl_agent env_four (initial_state ''for dentists'' ''description'')
                      empty_world)) =
     [(''crm tools for dentists'', 3), (''crm rivals for dentists'', 3),
      (''sales apps for dentists'', 3)]"
proof -
  let ?st = "initial_state ''for dentists'' ''description''"
  define P where "P = firecrawl_plan env_four ?st empty_world"
  have plan: "firecrawl_plan env_four ?st empty_world = (Inr (projr (fst P)), snd P)"
    and qs: "search_queries (projr (fst P)) =
      PyList [PyStr ''crm tools'', PyStr ''crm rivals'', PyStr ''sales apps'', PyStr ''new crm'']"
    by (simp_all add: P_def firecrawl_plan_result env_four_def stub_defs parse_queries_def
        re_search_def four_queries_def loads_four_def)
  show ?thesis
    using search_calls_capped[OF plan qs]
    by (simp add: empty_world_def initial_state_def)
qed

lemma firecrawl_plan_list:
  assumes "firecrawl_plan env st w = (Inr s1, w1)" and "search_queries s1 = PyList qs"
  shows "messages s1 = messages st @
           [''[Firecrawl Agent] Starting competitor discovery'', planned_message (length qs)]"
    and "w1 = plan_world st w"
  using assms by (auto simp: firecrawl_plan_result split: sum.splits)

text \<open>
  Claim C3, as amended. Let the planning phase have produced the query list \<open>qs\<close>, and
  let the ranking call return a text whose competitor list has a length. Then the agent
  returns, whatever the searches did: the raw competitor list is, in query order, what
  each of the first three searches contributed, a search that raised contributing
  nothing; every one of these searches was issued; the competitor list is there; and
  the messages of the stage are its four phase messages and no other.
\<close>

theorem failed_search_skipped:
  assumes plan: "firecrawl_plan env st w = (Inr s1, w1)"
      and qs: "search_queries s1 = PyList qs"
      and reply: "llm_reply env (Suc (length (llm_log w))) = Inr content"
      and len: "py_len (parse_competitors env content) = Inr n"
  shows "\<exists>st' w'. firecrawl_agent env st w = (Inr st', w') \<and>
           raw_competitors st' =
             concat (map (\<lambda>i. case search_reply env (length (search_log w) + i) of
                                 Inl e \<Rightarrow> []
                               | Inr r \<Rightarrow> read_results r [])
                         [0..<min 3 (length qs)]) \<and>
           length (search_log w') = length (search_log w) + min 3 (length qs) \<and>
           competitors st' = parse_competitors env content \<and>
           messages st' = messages st @
             [''[Firecrawl Agent] Starting competitor discovery'',
              planned_message (length qs),
              found_message (length (raw_competitors st')),
              selected_message n]"
proof -
  note p = firecrawl_plan_list[OF plan qs]
  let ?found = "concat (map (\<lambda>i. contribution (search_reply env (length (search_log w1) + i)))
                          [0..<min 3 (length qs)])"
  let ?s2 = "s1\<lparr>raw_competitors := ?found,
                 messages := messages s1 @ [found_message (length ?found)]\<rparr>"
  let ?w2 = "w1\<lparr>search_log := search_log w1 @
                map (\<lambda>q. (py_str env q @ '' '' @ user_input s1, 3)) (take 3 qs)\<rparr>"
  have search: "firecrawl_search env s1 w1 = (Inr ?s2, ?w2)"
    using firecrawl_search_result[OF qs, of env w1] by (simp add: Let_def)
  have agent: "firecrawl_agent env st w = firecrawl_rank env ?s2 ?w2"
    using plan search by (simp add: firecrawl_agent_def io_bind_def)
  have reply': "llm_reply env (length (llm_log ?w2)) = Inr content"
    using reply by (simp add: p(2) plan_world_def)
  show ?thesis
    using reply' len
    by (simp add: agent firecrawl_rank_result Let_def p plan_world_def
        contribution_def min.commute)
qed

text \<open>
  A run in which the first and the third search raise and the second returns one result:
  the result of the second search is in the raw list, and three searches were issued.
\<close>

theorem failed_search_skipped_witness:
  "\<exists>st' w'. firecrawl_agent env_flaky (initial_state ''crm'' ''description'') empty_world
               = (Inr st', w') \<and>
     raw_competitors st' =
       [PyDict [(''name'', PyStr ''Acme CRM''), (''url'', PyStr ''acme.example''),
                (''description'', PyStr ''CRM for small teams''),
                (''source'', PyStr ''web_search'')]] \<and>
     length (search_log w') = 3 \<and>
     competitors st' = PyList [] \<and>
     messages st' =
       [''[Firecrawl Agent] Starting competitor discovery'', planned_message 3,
        found_message 1, selected_message 0]"
proof -
  let ?st = "initial_state ''crm'' ''description''"
  define P where "P = firecrawl_plan env_flaky ?st empty_world"
  have plan: "firecrawl_plan env_flaky ?st empty_world = (Inr (projr (fst P)), snd P)"
    and qs: "search_queries (projr (fst P)) =
      PyList [PyStr ''competitors'', PyStr ''alternatives'', PyStr ''similar products'']"
    by (simp_all add: P_def firecrawl_plan_result env_flaky_def stub_defs parse_queries_def
        re_search_def default_queries_def)
  have reply: "llm_reply env_flaky (Suc (length (llm_log empty_world))) = Inr ''plain prose''"
    by (simp add: env_flaky_def stub_defs)
  have len: "py_len (parse_competitors env_flaky ''plain prose'') = Inr 0"
    by (simp add: parse_competitors_def re_search_def)
  from failed_search_skipped[OF plan qs reply len] obtain st' w' where
    run: "firecrawl_agent env_flaky ?st empty_world = (Inr st', w')" and
    raw: "raw_competitors st' =
             concat (map (\<lambda>i. case search_reply env_flaky (length (search_log empty_world) + i) of
                                 Inl e \<Rightarrow> []
                               | Inr r \<Rightarrow> read_results r [])
                         [0..<min 3 (length [PyStr ''competitors'', PyStr ''alternatives'',
                                             PyStr ''similar products''])])" and
    log: "length (search_log w') = length (search_log empty_world) +
            min 3 (length [PyStr ''competitors'', PyStr ''alternatives'',
                           PyStr ''similar products''])" and
    comp: "competitors st' = parse_competitors env_flaky ''plain prose''" and
    msgs: "messages st' = messages ?st @
             [''[Firecrawl Agent] Starting competitor discovery'',
              planned_message (length [PyStr ''competitors'', PyStr ''alternatives'',
                                       PyStr ''similar products'']),
              found_message (length (raw_competitors st')),
              selected_message 0]"
    by blast
  have three: "[0..<3] = [0, 1, 2]" by (simp add: upt_rec)
  have raw': "raw_competitors st' =
       [PyDict [(''name'', PyStr ''Acme CRM''), (''url'', PyStr ''acme.example''),
                (''description'', PyStr ''CRM for small teams''),
                (''source'', PyStr ''web_search'')]]"
    using raw by (simp add: three env_flaky_def search_flaky_def acme_reply_def stub_defs
        read_results_def make_raw_def)
  have log': "length (search_log w') = 3" using log by (simp add: empty_world_def)
  have comp': "competitors st' = PyList []"
    using comp by (simp add: parse_competitors_def re_search_def)
  have msgs': "messages st' =
       [''[Firecrawl Agent] Starting competitor discovery'', planned_message 3,
        found_message 1, selected_message 0]"
    using msgs by (simp add: raw' initial_state_def numeral_3_eq_3)
  from run raw' log' comp' msgs' show ?thesis by blast
qed

text \<open>
  Claim C3 as the specification states it fails: in the same run the first search raises,
  and the messages of the stage are the four phase messages; none of them records the
  search that was skipped.
\<close>

theorem skipped_search_leaves_no_message:
  "search_reply env_flaky 0 = Inl (ServiceError ''search failed'') \<and>
   (\<exists>st' w'. firecrawl_agent env_flaky (initial_state ''crm'' ''description'') empty_world
                = (Inr st', w') \<and>
      messages st' =
        [''[Firecrawl Agent] Starting competitor discovery'',
         ''[Firecrawl Agent] Planned 3 search strategies'',
         ''[Firecrawl Agent] Found 1 potential competitors'',
         ''[Firecrawl Agent] Selected top 0 competitors''])"
  by (simp add: env_flaky_def search_flaky_def acme_reply_def stub_defs firecrawl_defs io_defs
      re_search_def message_defs Let_def)

subsection \<open>Discovery: the planning step\<close>

text \<open>
  The two ways in which the query list can fail to be extracted. Without a bracketed
  span the default list is used and the phase goes on. With a span that \<^verbatim>\<open>json.loads\<close>
  rejects, the exception leaves the agent: line 103 has no \<^verbatim>\<open>try\<close> around it.
\<close>

lemma planning_without_span:
  assumes "llm_reply env (length (llm_log w)) = Inr content"
      and "\<not> has_span (CHR ''['') (CHR '']'') content"
  shows "\<exists>s1. firecrawl_plan env st w = (Inr s1, plan_world st w) \<and>
               search_queries s1 = default_queries"
  using assms
  by (simp add: firecrawl_plan_result parse_queries_def re_search_None_iff[symmetric]
      default_queries_def)

lemma planning_parse_failure_raises:
  assumes "llm_reply env (length (llm_log w)) = Inr content"
      and "re_search (CHR ''['') (CHR '']'') content = Some m"
      and "json_loads env m = Inl e"
  shows "firecrawl_agent env st w = (Inl e, plan_world st w)"
  using assms
  by (simp add: firecrawl_agent_def io_bind_def firecrawl_plan_result parse_queries_def)

text \<open>
  Claim C2 fails on the code. The planning reply \<^verbatim>\<open>Queries: [crm tools, crm rivals]\<close>
  has a bracketed span that is no JSON: the agent ends with the \<^verbatim>\<open>JSONDecodeError\<close>,
  no query list is set and no search is made.
\<close>

theorem planning_parse_failure_escapes:
  "firecrawl_agent env_bad_planning (initial_state ''crm'' ''description'') empty_world =
     (Inl JSONDecodeError,
      \<lparr>llm_log = [PlanningPrompt ''crm''], search_log = [],
       status_log = [(''firecrawl'', Working)], node_log = []\<rparr>)"
proof -
  have "re_search (CHR ''['') (CHR '']'') ''Queries: [crm tools, crm rivals]'' =
          Some ''[crm tools, crm rivals]''"
    by (simp add: re_search_def)
  then show ?thesis
    using planning_parse_failure_raises[of env_bad_planning empty_world
        "''Queries: [crm tools, crm rivals]''" "''[crm tools, crm rivals]''" JSONDecodeError
        "initial_state ''crm'' ''description''"]
    by (simp add: env_bad_planning_def stub_defs plan_world_def)
qed

subsection \<open>Discovery: the ranking step\<close>

text \<open>
  Claim C1. Let the first two phases of \<^verbatim>\<open>firecrawl_agent\<close> have gone through and let
  the ranking call return \<open>content\<close>. If \<open>content\<close> has no span from \<^verbatim>\<open>[\<close> to \<^verbatim>\<open>]\<close>,
  the agent returns with \<^verbatim>\<open>competitors\<close> the empty list; if the span that is found is
  rejected by \<^verbatim>\<open>json.loads\<close>, the agent returns with \<^verbatim>\<open>competitors\<close> the list of the
  one placeholder. In both cases the status of the stage is \<^verbatim>\<open>complete\<close>.
\<close>

theorem ranking_fallbacks:
  assumes plan: "firecrawl_plan env st w = (Inr s1, w1)"
      and search: "firecrawl_search env s1 w1 = (Inr s2, w2)"
      and reply: "llm_reply env (length (llm_log w2)) = Inr content"
  shows "(\<not> has_span (CHR ''['') (CHR '']'') content \<longrightarrow>
            (\<exists>st' w'. firecrawl_agent env st w = (Inr st', w') \<and>
                competitors st' = PyList [] \<and>
                agent_status st' ''firecrawl'' = Some Complete)) \<and>
         (\<forall>m e. re_search (CHR ''['') (CHR '']'') content = Some m \<and> json_loads env m = Inl e \<longrightarrow>
            (\<exists>st' w'. firecrawl_agent env st w = (Inr st', w') \<and>
                competitors st' = PyList [placeholder_competitor] \<and>
                agent_status st' ''firecrawl'' = Some Complete))"
proof -
  have agent: "firecrawl_agent env st w = firecrawl_rank env s2 w2"
    using plan search by (simp add: firecrawl_agent_def io_bind_def)
  show ?thesis
  proof (intro conjI impI allI)
    assume "\<not> has_span (CHR ''['') (CHR '']'') content"
    then have pc: "parse_competitors env content = PyList []"
      by (simp add: parse_competitors_def re_search_None_iff[symmetric])
    show "\<exists>st' w'. firecrawl_agent env st w = (Inr st', w') \<and>
                competitors st' = PyList [] \<and> agent_status st' ''firecrawl'' = Some Complete"
      using reply by (simp add: agent firecrawl_rank_result pc Let_def)
  next
    fix m e
    assume "re_search (CHR ''['') (CHR '']'') content = Some m \<and> json_loads env m = Inl e"
    then have pc: "parse_competitors env content = PyList [placeholder_competitor]"
      by (simp add: parse_competitors_def)
    show "\<exists>st' w'. firecrawl_agent env st w = (Inr st', w') \<and>
                competitors st' = PyList [placeholder_competitor] \<and>
                agent_status st' ''firecrawl'' = Some Complete"
      using reply by (simp add: agent firecrawl_rank_result pc Let_def)
  qed
qed

text \<open>
  The two branches on runs with the stub services: a ranking reply of plain prose, and
  one whose bracketed span is no JSON.
\<close>

theorem ranking_fallbacks_witness:
  "(\<exists>st' w'. firecrawl_agent env_prose (initial_state ''crm'' ''description'') empty_world
                = (Inr st', w') \<and>
       competitors st' = PyList [] \<and> agent_status st' ''firecrawl'' = Some Complete) \<and>
   (\<exists>st' w'. firecrawl_agent env_bad_ranking (initial_state ''crm'' ''description'') empty_world
                = (Inr st', w') \<and>
       competitors st' = PyList [placeholder_competitor] \<and>
       agent_status st' ''firecrawl'' = Some Complete)"
proof -
  let ?st = "initial_state ''crm'' ''description''"
  define PA where "PA = firecrawl_plan env_prose ?st empty_world"
  define SA where "SA = firecrawl_search env_prose (projr (fst PA)) (snd PA)"
  define PB where "PB = firecrawl_plan env_bad_ranking ?st empty_world"
  define SB where "SB = firecrawl_search env_bad_ranking (projr (fst PB)) (snd PB)"
  show ?thesis
    using ranking_fallbacks[of env_prose ?st empty_world "projr (fst PA)" "snd PA"
            "projr (fst SA)" "snd SA" "''plain prose''"]
          ranking_fallbacks[of env_bad_ranking ?st empty_world "projr (fst PB)" "snd PB"
            "projr (fst SB)" "snd SB" "''[ {invalid json ]''"]
    by (simp add: PA_def SA_def PB_def SB_def env_prose_def env_bad_ranking_def io_defs
        firecrawl_defs stub_defs re_search_def message_defs Let_def
        re_search_None_iff[symmetric])
qed

text \<open>
  Claim C9. Let the first two phases have gone through, let the ranking call return
  \<open>content\<close>, and let \<^verbatim>\<open>json.loads\<close> accept the bracketed span of \<open>content\<close> with the
  value \<open>v\<close>. Then \<^verbatim>\<open>competitors\<close> is \<open>v\<close> itself: nothing looks at the shape of \<open>v\<close>
  or of its elements (\<open>v\<close> only has to have a length, for the message that follows).
\<close>

theorem competitors_stored_verbatim:
  assumes plan: "firecrawl_plan env st w = (Inr s1, w1)"
      and search: "firecrawl_search env s1 w1 = (Inr s2, w2)"
      and reply: "llm_reply env (length (llm_log w2)) = Inr content"
      and found: "re_search (CHR ''['') (CHR '']'') content = Some m"
      and parsed: "json_loads env m = Inr v"
      and len: "py_len v = Inr n"
  shows "\<exists>st' w'. firecrawl_agent env st w = (Inr st', w') \<and> competitors st' = v"
proof -
  have agent: "firecrawl_agent env st w = firecrawl_rank env s2 w2"
    using plan search by (simp add: firecrawl_agent_def io_bind_def)
  have pc: "parse_competitors env content = v"
    using found parsed by (simp add: parse_competitors_def)
  show ?thesis
    using reply len by (simp add: agent firecrawl_rank_result pc Let_def)
qed

text \<open>
  A ranking reply that is an array of two strings: the two strings are the competitors,
  and none of the documented fields can be read from either.
\<close>

theorem competitors_stored_verbatim_witness:
  "\<exists>st' w'. firecrawl_agent env_names (initial_state ''crm'' ''description'') empty_world
               = (Inr st', w') \<and>
     competitors st' = PyList [PyStr ''Acme'', PyStr ''Globex''] \<and>
     list_all (\<lambda>x. list_all (\<lambda>k. py_get x k PyNone = Inl AttributeError) competitor_fields)
       [PyStr ''Acme'', PyStr ''Globex'']"
proof -
  let ?st = "initial_state ''crm'' ''description''"
  define P where "P = firecrawl_plan env_names ?st empty_world"
  define S where "S = firecrawl_search env_names (projr (fst P)) (snd P)"
  have plan: "firecrawl_plan env_names ?st empty_world = (Inr (projr (fst P)), snd P)"
    and qs: "search_queries (projr (fst P)) = default_queries"
    by (simp_all add: P_def firecrawl_plan_result env_names_def stub_defs parse_queries_def
        re_search_def default_queries_def)
  have search: "firecrawl_search env_names (projr (fst P)) (snd P) = (Inr (projr (fst S)), snd S)"
    using firecrawl_search_result[of "projr (fst P)" _ env_names "snd P"] qs
    by (simp add: S_def default_queries_def Let_def)
  have w2: "length (llm_log (snd S)) = 1"
    using firecrawl_search_result[of "projr (fst P)" _ env_names "snd P"] qs
      firecrawl_plan_world[of env_names ?st empty_world]
    by (simp add: S_def P_def default_queries_def Let_def plan_world_def empty_world_def)
  have reply: "llm_reply env_names (length (llm_log (snd S))) = Inr two_names"
    by (simp add: w2 env_names_def stub_defs)
  have found: "re_search (CHR ''['') (CHR '']'') two_names = Some two_names"
    by (simp add: re_search_def two_names_def)
  have parsed: "json_loads env_names two_names = Inr (PyList [PyStr ''Acme'', PyStr ''Globex''])"
    by (simp add: env_names_def stub_defs loads_names_def)
  have len: "py_len (PyList [PyStr ''Acme'', PyStr ''Globex'']) = Inr 2" by simp
  from competitors_stored_verbatim[OF plan search reply found parsed len]
  show ?thesis by (simp add: competitor_fields_def)
qed

subsection \<open>Comparison: the feature matrix\<close>

lemma comparison_matrix_result:
  "comparison_matrix env st w =
     (let w1 = w\<lparr>llm_log := llm_log w @ [ComparisonPrompt (user_input st) (competitors st)],
                 status_log := status_log w @ [(''comparison'', Working)]\<rparr>
      in case llm_reply env (length (llm_log w)) of
           Inl e \<Rightarrow> (Inl e, w1)
         | Inr content \<Rightarrow>
             (case py_get (parse_comparison env content) ''features'' (PyList []) of
                Inl e \<Rightarrow> (Inl e, w1)
              | Inr features \<Rightarrow>
                  (case py_len features of
                     Inl e \<Rightarrow> (Inl e, w1)
                   | Inr n \<Rightarrow>
                       (Inr (st\<lparr>agent_status := (agent_status st)(''comparison'' \<mapsto> Working),
                                feature_comparison := parse_comparison env content,
                                messages := messages st @
                                  [''[Comparison Agent] Creating feature comparison'',
                                   created_message n]\<rparr>),
                        w1))))"
  by (simp add: comparison_matrix_def io_bind_llm_invoke append_message_def Let_def
      raise_def returns_def split: sum.splits)

lemma comparison_strategy_result:
  "comparison_strategy env st w =
     (let w1 = w\<lparr>llm_log := llm_log w @ [StrategyPrompt (user_input st)
                    (take 2000 (competitive_analysis st)) (feature_comparison st)]\<rparr>
      in case llm_reply env (length (llm_log w)) of
           Inl e \<Rightarrow> (Inl e, w1)
         | Inr recommendations \<Rightarrow>
             (Inr (st\<lparr>strategic_recommendations := recommendations,
                      messages := messages st @
                        [''[Comparison Agent] Generated strategic recommendations''],
                      agent_status := (agent_status st)(''comparison'' \<mapsto> Complete)\<rparr>),
              w1\<lparr>status_log := status_log w @ [(''comparison'', Complete)]\<rparr>))"
  by (simp add: comparison_strategy_def io_bind_llm_invoke append_message_def set_status_def
      Let_def split: sum.splits)

lemma comparison_agent_features:
  assumes reply: "llm_reply env (length (llm_log w)) = Inr content"
      and strategy: "llm_reply env (Suc (length (llm_log w))) = Inr recommendations"
      and pc: "parse_comparison env content = PyDict [(''features'', PyList fs)]"
  shows "\<exists>st' w'. comparison_agent env st w = (Inr st', w') \<and>
           feature_comparison st' = PyDict [(''features'', PyList fs)]"
  using assms
  by (simp add: comparison_agent_def io_bind_def comparison_matrix_result
      comparison_strategy_result Let_def)

text \<open>
  Claim C4. Let the matrix call return \<open>content\<close> and the strategy call return. If the
  span of \<open>content\<close> from \<^verbatim>\<open>{\<close> to \<^verbatim>\<open>}\<close> is rejected by \<^verbatim>\<open>json.loads\<close>, the agent
  returns with \<^verbatim>\<open>feature_comparison\<close> the placeholder matrix, whose \<^verbatim>\<open>features\<close> list has
  exactly one element; if \<open>content\<close> has no such span, it returns with a matrix whose
  \<^verbatim>\<open>features\<close> list is empty.
\<close>

theorem matrix_fallbacks:
  assumes reply: "llm_reply env (length (llm_log w)) = Inr content"
      and strategy: "llm_reply env (Suc (length (llm_log w))) = Inr recommendations"
  shows "(\<forall>m e. re_search (CHR ''{'') (CHR ''}'') content = Some m \<and> json_loads env m = Inl e \<longrightarrow>
            (\<exists>st' w' fs. comparison_agent env st w = (Inr st', w') \<and>
                feature_comparison st' = placeholder_comparison \<and>
                py_get (feature_comparison st') ''features'' (PyList []) = Inr (PyList fs) \<and>
                length fs = 1)) \<and>
         (\<not> has_span (CHR ''{'') (CHR ''}'') content \<longrightarrow>
            (\<exists>st' w'. comparison_agent env st w = (Inr st', w') \<and>
                feature_comparison st' = PyDict [(''features'', PyList [])] \<and>
                py_get (feature_comparison st') ''features'' (PyList []) = Inr (PyList [])))"
proof (intro conjI impI allI)
  fix m e
  assume "re_search (CHR ''{'') (CHR ''}'') content = Some m \<and> json_loads env m = Inl e"
  then have pc: "parse_comparison env content = placeholder_comparison"
    by (simp add: parse_comparison_def)
  from comparison_agent_features[OF reply strategy pc[unfolded placeholder_comparison_def],
      where st = st]
  obtain st' w' where "comparison_agent env st w = (Inr st', w')"
    "feature_comparison st' = placeholder_comparison"
    by (auto simp: placeholder_comparison_def)
  then show "\<exists>st' w' fs. comparison_agent env st w = (Inr st', w') \<and>
          feature_comparison st' = placeholder_comparison \<and>
          py_get (feature_comparison st') ''features'' (PyList []) = Inr (PyList fs) \<and>
          length fs = 1"
    by (auto simp: placeholder_comparison_def)
next
  assume "\<not> has_span (CHR ''{'') (CHR ''}'') content"
  then have pc: "parse_comparison env content = PyDict [(''features'', PyList [])]"
    by (simp add: parse_comparison_def re_search_None_iff[symmetric] empty_comparison_def)
  from comparison_agent_features[OF reply strategy pc, where st = st]
  show "\<exists>st' w'. comparison_agent env st w = (Inr st', w') \<and>
          feature_comparison st' = PyDict [(''features'', PyList [])] \<and>
          py_get (feature_comparison st') ''features'' (PyList []) = Inr (PyList [])"
    by auto
qed

text \<open>
  The two branches on runs of the agent with the stub services: a matrix reply whose span
  in braces is no JSON, and one of plain prose.
\<close>

theorem matrix_fallbacks_witness:
  "(\<exists>st' w'. comparison_agent env_bad_matrix (initial_state ''crm'' ''description'') empty_world
                = (Inr st', w') \<and>
      feature_comparison st' = placeholder_comparison \<and>
      (\<exists>f. py_get (feature_comparison st') ''features'' (PyList []) = Inr (PyList [f]))) \<and>
   (\<exists>st' w'. comparison_agent env_prose (initial_state ''crm'' ''description'') empty_world
                = (Inr st', w') \<and>
      feature_comparison st' = PyDict [(''features'', PyList [])])"
proof -
  let ?st = "initial_state ''crm'' ''description''"
  have bad: "re_search (CHR ''{'') (CHR ''}'') ''{ features: none }'' = Some ''{ features: none }'' \<and>
             json_loads env_bad_matrix ''{ features: none }'' = Inl JSONDecodeError"
    by (simp add: re_search_def env_bad_matrix_def stub_defs)
  have none: "\<not> has_span (CHR ''{'') (CHR ''}'') ''plain prose''"
    by (simp add: re_search_None_iff[symmetric] re_search_def)
  have a: "\<exists>st' w' fs. comparison_agent env_bad_matrix ?st empty_world = (Inr st', w') \<and>
                feature_comparison st' = placeholder_comparison \<and>
                py_get (feature_comparison st') ''features'' (PyList []) = Inr (PyList fs) \<and>
                length fs = 1"
    using matrix_fallbacks[of env_bad_matrix empty_world "''{ features: none }''"
        "''{ features: none }''" ?st] bad
    by (simp add: env_bad_matrix_def stub_defs)
  have b: "\<exists>st' w'. comparison_agent env_prose ?st empty_world = (Inr st', w') \<and>
                feature_comparison st' = PyDict [(''features'', PyList [])] \<and>
                py_get (feature_comparison st') ''features'' (PyList []) = Inr (PyList [])"
    using matrix_fallbacks[of env_prose empty_world "''plain prose''" "''plain prose''" ?st] none
    by (simp add: env_prose_def stub_defs)
  from a obtain st' w' fs where
    "comparison_agent env_bad_matrix ?st empty_world = (Inr st', w')"
    "feature_comparison st' = placeholder_comparison"
    "py_get (feature_comparison st') ''features'' (PyList []) = Inr (PyList fs)" "length fs = 1"
    by blast
  moreover from this obtain f where "fs = [f]" by (cases fs) auto
  ultimately have a': "\<exists>st' w'. comparison_agent env_bad_matrix ?st empty_world = (Inr st', w') \<and>
      feature_comparison st' = placeholder_comparison \<and>
      (\<exists>f. py_get (feature_comparison st') ''features'' (PyList []) = Inr (PyList [f]))"
    by blast
  from a' b show ?thesis by blast
qed

subsection \<open>Analysis: the section extraction\<close>

lemma contains_iff_occurs: "contains sub s \<longleftrightarrow> occurs_in sub s"
proof (induction s)
  case Nil
  show ?case by (auto simp: occurs_in_def)
next
  case (Cons c cs)
  show ?case
  proof
    assume "contains sub (c # cs)"
    then consider "prefix sub (c # cs)" | "contains sub cs" by auto
    then show "occurs_in sub (c # cs)"
    proof cases
      case 1
      then obtain post where "c # cs = sub @ post" by (auto simp: prefix_def)
      then have "c # cs = [] @ sub @ post" by simp
      then show ?thesis unfolding occurs_in_def by blast
    next
      case 2
      with Cons.IH obtain pre post where "cs = pre @ sub @ post" by (auto simp: occurs_in_def)
      then have "c # cs = (c # pre) @ sub @ post" by simp
      then show ?thesis unfolding occurs_in_def by blast
    qed
  next
    assume "occurs_in sub (c # cs)"
    then obtain pre post where eq: "c # cs = pre @ sub @ post" by (auto simp: occurs_in_def)
    show "contains sub (c # cs)"
    proof (cases pre)
      case Nil
      with eq have "prefix sub (c # cs)" by (simp add: prefix_def)
      then show ?thesis by simp
    next
      case (Cons p pre')
      with eq have "cs = pre' @ sub @ post" by simp
      then have "occurs_in sub cs" unfolding occurs_in_def by blast
      with Cons.IH show ?thesis by simp
    qed
  qed
qed

lemma strip_nonempty_iff: "strip s \<noteq> [] \<longleftrightarrow> (\<exists>c \<in> set s. \<not> isspace c)"
proof
  assume ne: "strip s \<noteq> []"
  have d: "dropWhile isspace s \<noteq> []"
  proof
    assume "dropWhile isspace s = []"
    then have "strip s = rev (dropWhile isspace (rev []))" by (simp only: strip_def)
    with ne show False by simp
  qed
  then have "\<not> isspace (hd (dropWhile isspace s))" by (rule hd_dropWhile)
  moreover have "hd (dropWhile isspace s) \<in> set s"
    using d by (meson hd_in_set set_dropWhileD)
  ultimately show "\<exists>c \<in> set s. \<not> isspace c" by blast
next
  assume "\<exists>c \<in> set s. \<not> isspace c"
  then have ne: "dropWhile isspace s \<noteq> []" by (auto simp: dropWhile_eq_Nil_conv)
  then have "\<not> isspace (hd (dropWhile isspace s))" by (rule hd_dropWhile)
  moreover have "hd (dropWhile isspace s) \<in> set (rev (dropWhile isspace s))"
    using ne by simp
  ultimately have "dropWhile isspace (rev (dropWhile isspace s)) \<noteq> []"
    by (auto simp: dropWhile_eq_Nil_conv)
  then show "strip s \<noteq> []" by (simp add: strip_def)
qed

lemma py_split_not_Nil [simp]: "py_split sep s \<noteq> []"
  by (induction sep s rule: py_split.induct) (auto split: list.splits)

text \<open>Piece 0 of a split is the text before the first separator.\<close>

lemma py_split_first: "py_split sep s = text_before sep s # tl (py_split sep s)"
  by (induction sep s rule: py_split.induct) (auto split: list.splits)

lemma py_index_0: "py_index (py_split sep s) 0 = Inr (text_before sep s)"
proof -
  have "py_split sep s ! 0 = text_before sep s"
    by (subst py_split_first) simp
  moreover have "0 < length (py_split sep s)" by simp
  ultimately show ?thesis by (simp add: py_index_def)
qed

text \<open>
  When the separator occurs, piece 1 exists: it is the text between the first separator
  and the next.
\<close>

lemma py_split_second:
  assumes "sep \<noteq> []" and "contains sep s"
  shows "py_index (py_split sep s) 1 = Inr (text_before sep (text_after sep s))"
  using assms
proof (induction sep s rule: py_split.induct)
  case (1 sep)
  then show ?case by simp
next
  case (2 sep c cs)
  show ?case
  proof (cases "prefix sep (c # cs)")
    case True
    have drop: "drop (length sep) (c # cs) = drop (length sep - 1) cs"
      using \<open>sep \<noteq> []\<close> by (cases sep) simp_all
    have "py_split sep (c # cs) ! 1 = text_before sep (drop (length sep - 1) cs)"
      using True by (simp, subst py_split_first, simp)
    moreover have "1 < length (py_split sep (c # cs))"
      using True by (simp add: Suc_lessI)
    ultimately show ?thesis using True drop by (simp add: py_index_def)
  next
    case False
    with "2.prems" have c: "contains sep cs" by simp
    from "2.IH"(2)[OF False \<open>sep \<noteq> []\<close> c]
    have ih: "py_index (py_split sep cs) 1 = Inr (text_before sep (text_after sep cs))" .
    obtain p ps where ps: "py_split sep cs = p # ps"
      by (cases "py_split sep cs") simp_all
    from ih ps have "1 < length (p # ps)" "(p # ps) ! 1 = text_before sep (text_after sep cs)"
      by (auto simp: py_index_def split: if_splits)
    then show ?thesis using False ps by (simp add: py_index_def)
  qed
qed

text \<open>The meaning of the two parts: they are what lies around the first occurrence.\<close>

lemma text_around_first:
  "contains sep s \<Longrightarrow> s = text_before sep s @ sep @ text_after sep s"
proof (induction s)
  case Nil
  then show ?case by simp
next
  case (Cons c cs)
  show ?case
  proof (cases "prefix sep (c # cs)")
    case True
    then have "sep @ drop (length sep) (c # cs) = c # cs" by (auto simp: prefix_def)
    moreover have "text_before sep (c # cs) = []"
      and "text_after sep (c # cs) = drop (length sep) (c # cs)"
      using True by simp_all
    ultimately show ?thesis by simp
  next
    case False
    with Cons show ?thesis by simp
  qed
qed

lemma text_before_is_first:
  "i < length (text_before sep s) \<Longrightarrow> \<not> prefix sep (drop i s)"
proof (induction s arbitrary: i)
  case Nil
  then show ?case by simp
next
  case (Cons c cs)
  show ?case
  proof (cases "prefix sep (c # cs)")
    case True
    with Cons.prems show ?thesis by simp
  next
    case False
    show ?thesis
    proof (cases i)
      case 0
      with False show ?thesis by simp
    next
      case (Suc j)
      with Cons.prems False have "j < length (text_before sep cs)" by simp
      with Cons.IH Suc show ?thesis by simp
    qed
  qed
qed

lemma text_before_whole: "\<not> contains sep s \<Longrightarrow> text_before sep s = s"
  by (induction s) auto

text \<open>The extraction of one field, in terms of the section under the heading.\<close>

lemma extract_section_lines:
  assumes "heading \<noteq> []"
  shows "extract_section heading dflt narrative = Inr (section_lines heading dflt narrative)"
proof (cases "contains heading narrative")
  case True
  then show ?thesis
    using py_split_second[OF assms True]
    by (simp add: extract_section_def section_lines_def section_under_def kept_lines_def
        py_index_0 strip_nonempty_iff contains_iff_occurs[symmetric])
next
  case False
  then show ?thesis
    by (simp add: extract_section_def section_lines_def contains_iff_occurs[symmetric])
qed

text \<open>Every line that is kept is the stripped form of a line of more than 20 characters.\<close>

lemma kept_lines_origin:
  assumes "x \<in> set (kept_lines txt)"
  shows "\<exists>line \<in> set (py_split newline txt). x = strip line \<and> 20 < length line \<and> x \<noteq> []"
proof -
  from assms have "x \<in> set (map strip
       (filter (\<lambda>line. (\<exists>c \<in> set line. \<not> isspace c) \<and> 20 < length line)
          (py_split newline txt)))"
    unfolding kept_lines_def by (rule in_set_takeD)
  then obtain line where line: "line \<in> set (py_split newline txt)" "x = strip line"
      "\<exists>c \<in> set line. \<not> isspace c" "20 < length line"
    by auto
  then have "x \<noteq> []" by (simp add: strip_nonempty_iff)
  with line show ?thesis by blast
qed

lemma kept_lines_at_most_5: "length (kept_lines txt) \<le> 5"
  by (simp add: kept_lines_def)

lemmas extraction_defs = analysis_extract_def extract_section_def py_index_def strip_def
  isspace_def newline_def default_gaps_def default_weaknesses_def

text \<open>
  What lines 250 to 267 compute from a narrative. These lines stand after the prompt
  construction of \<^verbatim>\<open>analysis_agent\<close>, which raises (see \<open>analysis_agent_raises\<close>
  below): the three facts that follow describe the code as written, not a run of the
  stage. The lines do not raise. They store the narrative, and for each of the two
  headings: when the heading text occurs in the narrative, the field is the kept lines
  of the section under the heading (stripped; of the lines with a character that is no
  white space and of more than 20 characters unstripped; five at most, possibly none);
  when it does not occur, the field is the default of two items.
\<close>

lemma section_extraction:
  "analysis_extract narrative st w =
     (Inr (st\<lparr>competitive_analysis := narrative,
              market_gaps := section_lines ''Market Positioning & Gaps'' default_gaps narrative,
              competitor_weaknesses :=
                section_lines ''Competitor Weaknesses'' default_weaknesses narrative,
              messages := messages st @ [''[Analysis Agent] Generated comprehensive analysis''],
              agent_status := (agent_status st)(''analysis'' \<mapsto> Complete)\<rparr>),
      w\<lparr>status_log := status_log w @ [(''analysis'', Complete)]\<rparr>)"
proof -
  have gaps: "extract_section ''Market Positioning & Gaps'' default_gaps narrative =
      Inr (section_lines ''Market Positioning & Gaps'' default_gaps narrative)"
    by (rule extract_section_lines) simp
  have weak: "extract_section ''Competitor Weaknesses'' default_weaknesses narrative =
      Inr (section_lines ''Competitor Weaknesses'' default_weaknesses narrative)"
    by (rule extract_section_lines) simp
  show ?thesis
    by (simp add: analysis_extract_def gaps weak append_message_def set_status_def Let_def)
qed

text \<open>
  Six long lines and a short one under the first heading, no second heading: the first
  five long lines are kept, and the second field is its default.
\<close>

lemma section_extraction_example:
  "\<exists>st' w'. analysis_extract long_narrative (initial_state ''crm'' ''description'') empty_world
               = (Inr st', w') \<and>
     market_gaps st' =
       [''Enterprise suites ignore small teams'', ''No vendor offers offline access'',
        ''Onboarding takes weeks, not hours'', ''Reporting is an expensive add-on'',
        ''Mobile clients lag behind the web''] \<and>
     competitor_weaknesses st' = [''Pricing complexity'', ''Limited features'']"
proof -
  have gaps: "extract_section ''Market Positioning & Gaps'' default_gaps long_narrative =
      Inr [''Enterprise suites ignore small teams'', ''No vendor offers offline access'',
        ''Onboarding takes weeks, not hours'', ''Reporting is an expensive add-on'',
        ''Mobile clients lag behind the web'']"
    by (simp add: long_narrative_def extraction_defs)
  have weak: "extract_section ''Competitor Weaknesses'' default_weaknesses long_narrative =
      Inr [''Pricing complexity'', ''Limited features'']"
    by (simp add: long_narrative_def extraction_defs)
  have g: "section_lines ''Market Positioning & Gaps'' default_gaps long_narrative =
      [''Enterprise suites ignore small teams'', ''No vendor offers offline access'',
        ''Onboarding takes weeks, not hours'', ''Reporting is an expensive add-on'',
        ''Mobile clients lag behind the web'']"
    using gaps extract_section_lines[of "''Market Positioning & Gaps''" default_gaps long_narrative]
    by simp
  have k: "section_lines ''Competitor Weaknesses'' default_weaknesses long_narrative =
      [''Pricing complexity'', ''Limited features'']"
    using weak extract_section_lines[of "''Competitor Weaknesses''" default_weaknesses long_narrative]
    by simp
  show ?thesis
    using section_extraction[of long_narrative "initial_state ''crm'' ''description''" empty_world]
    by (simp add: g k)
qed

text \<open>
  A heading whose section has no line of more than 20 characters: the lines would leave
  the field empty.
\<close>

lemma heading_present_field_empty:
  "contains ''Market Positioning & Gaps'' short_narrative \<and>
   (\<exists>st' w'. analysis_extract short_narrative (initial_state ''crm'' ''description'') empty_world
                = (Inr st', w') \<and>
      market_gaps st' = [])"
  by (simp add: short_narrative_def extraction_defs io_defs Let_def)

text \<open>
  A line of 30 characters of which 17 are blanks around 13 others passes the filter,
  which measures the line as it stands, and would be stored stripped, as an element of
  13 characters.
\<close>

lemma stored_line_shorter_than_filter:
  "contains ''Market Positioning & Gaps'' padded_narrative \<and>
   20 < length padded_line \<and>
   strip padded_line = ''Niche CRM gap'' \<and>
   length ''Niche CRM gap'' \<le> 20 \<and>
   (\<exists>st' w'. analysis_extract padded_narrative st w = (Inr st', w') \<and>
      market_gaps st' = [''Niche CRM gap''])"
  by (simp add: padded_narrative_def padded_line_def extraction_defs io_defs Let_def)

subsection \<open>Analysis and the whole pipeline\<close>

text \<open>
  \<^verbatim>\<open>analysis_agent\<close> sets its status to \<^verbatim>\<open>working\<close>, appends its first message and then
  evaluates the f-string of its prompt, in which \<^verbatim>\<open>json.dumps\<close> is called. The module
  binds no name \<^verbatim>\<open>json\<close>, and the function has no import of its own: whatever the
  state and the services, the agent ends there with a \<^verbatim>\<open>NameError\<close>.
\<close>

lemma analysis_agent_raises:
  "analysis_agent env st w =
     (Inl (NameError ''json''), w\<lparr>status_log := status_log w @ [(''analysis'', Working)]\<rparr>)"
  by (simp add: analysis_agent_def load_global_def module_names_def raise_def Let_def)

text \<open>
  Claim C5 fails on the code. Whatever the state and whatever narrative the inference
  service would produce, \<^verbatim>\<open>analysis_agent\<close> ends with the \<^verbatim>\<open>NameError\<close> and has sent no
  prompt: the stage fails, there is no narrative, and neither \<^verbatim>\<open>market_gaps\<close> nor
  \<^verbatim>\<open>competitor_weaknesses\<close> is assigned.
\<close>

theorem analysis_stage_always_fails:
  "fst (analysis_agent env st w) = Inl (NameError ''json'') \<and>
   llm_log (snd (analysis_agent env st w)) = llm_log w \<and>
   status_log (snd (analysis_agent env st w)) = status_log w @ [(''analysis'', Working)]"
  by (simp add: analysis_agent_raises)

text \<open>
  The same on a concrete run: the service would answer with the narrative of six long
  lines under the first heading; the agent raises before it asks.
\<close>

lemma analysis_stage_fails_example:
  "llm_reply env_long 0 = Inr long_narrative \<and>
   contains ''Market Positioning & Gaps'' long_narrative \<and>
   analysis_agent env_long (initial_state ''crm'' ''description'') empty_world =
     (Inl (NameError ''json''),
      \<lparr>llm_log = [], search_log = [], status_log = [(''analysis'', Working)],
       node_log = []\<rparr>)"
  by (simp add: analysis_agent_raises env_long_def stub_defs long_narrative_def newline_def)

text \<open>
  Claim C10 fails on the code. The inference service would answer with the narrative
  that holds the heading and the padded line. \<^verbatim>\<open>analysis_agent\<close>, started in the
  initial state, ends with the \<^verbatim>\<open>NameError\<close> before it asks: no prompt is sent, the
  filter of line 255 is not reached, and no element, short or long, is stored in
  \<^verbatim>\<open>market_gaps\<close>.
\<close>

theorem short_line_never_stored:
  "llm_reply env_padded 0 = Inr padded_narrative \<and>
   contains ''Market Positioning & Gaps'' padded_narrative \<and>
   market_gaps (initial_state ''crm'' ''description'') = [] \<and>
   analysis_agent env_padded (initial_state ''crm'' ''description'') empty_world =
     (Inl (NameError ''json''),
      \<lparr>llm_log = [], search_log = [], status_log = [(''analysis'', Working)],
       node_log = []\<rparr>)"
  by (simp add: analysis_agent_raises env_padded_def stub_defs padded_narrative_def
      padded_line_def newline_def)

lemma run_from_firecrawl:
  "run_from (Suc (Suc fuel)) create_workflow env ''firecrawl'' st w =
     (case firecrawl_agent env st (w\<lparr>node_log := node_log w @ [''firecrawl'']\<rparr>) of
        (Inl e, w') \<Rightarrow> (Inl e, w')
      | (Inr returned, w') \<Rightarrow>
          (Inl (NameError ''json''),
           w'\<lparr>node_log := node_log w' @ [''analysis''],
              status_log := status_log w' @ [(''analysis'', Working)]\<rparr>))"
  by (simp add: create_workflow_def END_def io_bind_def enter_node_def analysis_agent_raises
      split: sum.splits prod.splits)

lemma run_competitor_analysis_result:
  "run_competitor_analysis env u mode w =
     (case firecrawl_agent env (initial_state u mode) (w\<lparr>node_log := node_log w @ [''firecrawl'']\<rparr>) of
        (Inl e, w') \<Rightarrow> (Inl e, w')
      | (Inr returned, w') \<Rightarrow>
          (Inl (NameError ''json''),
           w'\<lparr>node_log := node_log w' @ [''analysis''],
              status_log := status_log w' @ [(''analysis'', Working)]\<rparr>))"
proof -
  have limit: "recursion_limit = Suc (Suc 23)" by (simp add: recursion_limit_def)
  have entry: "entry_point create_workflow = ''firecrawl''" by (simp add: create_workflow_def)
  show ?thesis
    unfolding run_competitor_analysis_def invoke_def limit entry
    by (rule run_from_firecrawl)
qed

lemma firecrawl_agent_node_log: "node_log (snd (firecrawl_agent env st w)) = node_log w"
proof -
  have plan: "node_log (snd (firecrawl_plan env st w)) = node_log w"
    by (simp add: firecrawl_plan_world plan_world_def)
  have search: "\<And>s v. node_log (snd (firecrawl_search env s v)) = node_log v"
    by (simp add: firecrawl_search_def io_bind_def lift_def returns_def run_searches_result
        split: sum.splits)
  have rank: "\<And>s v. node_log (snd (firecrawl_rank env s v)) = node_log v"
    by (simp add: firecrawl_rank_result Let_def split: sum.splits)
  show ?thesis
    using plan search rank
    by (auto simp: firecrawl_agent_def io_bind_def split: sum.splits prod.splits)
      (metis snd_conv)+
qed

text \<open>
  What does hold of every run, up to the point where it ends: the status assignments are
  those of Discovery alone when Discovery raises, and else those of Discovery followed
  by the first of Analysis; no entry moves backward.
\<close>

lemma firecrawl_search_status_log:
  "status_log (snd (firecrawl_search env st w)) = status_log w"
  by (simp add: firecrawl_search_def io_bind_def lift_def returns_def run_searches_result
      split: sum.splits)

lemma firecrawl_agent_status_log:
  "status_log (snd (firecrawl_agent env st w)) =
     status_log w @
       (case fst (firecrawl_agent env st w) of
          Inl e \<Rightarrow> [(''firecrawl'', Working)]
        | Inr returned \<Rightarrow> [(''firecrawl'', Working), (''firecrawl'', Complete)])"
proof (cases "firecrawl_plan env st w")
  case (Pair r1 w1)
  have w1: "status_log w1 = status_log w @ [(''firecrawl'', Working)]"
    using firecrawl_plan_world[of env st w] Pair by (simp add: plan_world_def)
  show ?thesis
  proof (cases r1)
    case (Inl e)
    with Pair w1 show ?thesis by (simp add: firecrawl_agent_def io_bind_def)
  next
    case (Inr s1)
    show ?thesis
    proof (cases "firecrawl_search env s1 w1")
      case (Pair r2 w2)
      have w2: "status_log w2 = status_log w1"
        using firecrawl_search_status_log[of env s1 w1] Pair by simp
      show ?thesis
      proof (cases r2)
        case (Inl e)
        with Pair \<open>firecrawl_plan env st w = (r1, w1)\<close> Inr w1 w2 show ?thesis
          by (simp add: firecrawl_agent_def io_bind_def)
      next
        case (Inr s2)
        have agent: "firecrawl_agent env st w = firecrawl_rank env s2 w2"
          using \<open>firecrawl_plan env st w = (r1, w1)\<close> \<open>r1 = Inr s1\<close> Pair Inr
          by (simp add: firecrawl_agent_def io_bind_def)
        show ?thesis
          by (simp add: agent firecrawl_rank_result Let_def w1 w2 split: sum.splits)
      qed
    qed
  qed
qed

lemma status_writes_of_any_run:
  "status_log (snd (run_competitor_analysis env u mode empty_world)) =
     (case fst (firecrawl_agent env (initial_state u mode)
                 (empty_world\<lparr>node_log := [''firecrawl'']\<rparr>)) of
        Inl e \<Rightarrow> [(''firecrawl'', Working)]
      | Inr returned \<Rightarrow> [(''firecrawl'', Working), (''firecrawl'', Complete),
                         (''analysis'', Working)])"
proof -
  let ?w = "empty_world\<lparr>node_log := [''firecrawl'']\<rparr>"
  have w: "empty_world\<lparr>node_log := node_log empty_world @ [''firecrawl'']\<rparr> = ?w"
    by (simp add: empty_world_def)
  have s: "status_log ?w = []" by (simp add: empty_world_def)
  obtain r w' where f: "firecrawl_agent env (initial_state u mode) ?w = (r, w')"
    by (cases "firecrawl_agent env (initial_state u mode) ?w")
  from firecrawl_agent_status_log[of env "initial_state u mode" ?w] f s
  have "status_log w' =
      (case r of Inl e \<Rightarrow> [(''firecrawl'', Working)]
       | Inr returned \<Rightarrow> [(''firecrawl'', Working), (''firecrawl'', Complete)])"
    by simp
  then show ?thesis
    by (cases r) (simp_all add: run_competitor_analysis_result w f)
qed

lemma status_moves_forward_in_any_run:
  "forward_only (agent_status (initial_state u mode))
     (status_log (snd (run_competitor_analysis env u mode empty_world)))"
  by (simp add: status_writes_of_any_run initial_state_def split: sum.splits)

text \<open>
  Claim C7 fails on the code. With an inference service that answers every call and a
  search service that is down, Discovery completes, and the run ends in the Analysis
  stage with the \<^verbatim>\<open>NameError\<close>: there is no final state. The status assignments
  made are those listed; \<^verbatim>\<open>analysis\<close> stays \<^verbatim>\<open>working\<close> and \<^verbatim>\<open>comparison\<close> stays
  \<^verbatim>\<open>pending\<close>.
\<close>

theorem run_ends_in_analysis:
  "run_competitor_analysis env_prose ''crm'' ''description'' empty_world =
     (Inl (NameError ''json''),
      \<lparr>llm_log = [PlanningPrompt ''crm'', RankingPrompt ''crm'' []],
       search_log = [(''competitors crm'', 3), (''alternatives crm'', 3),
                     (''similar products crm'', 3)],
       status_log = [(''firecrawl'', Working), (''firecrawl'', Complete),
                     (''analysis'', Working)],
       node_log = [''firecrawl'', ''analysis'']\<rparr>)"
  by (simp add: run_competitor_analysis_result env_prose_def stub_defs firecrawl_defs io_defs
      re_search_def Let_def)

text \<open>
  Claim C8 fails on the code. Whatever the services answer, the run ends with an
  exception, and the node \<^verbatim>\<open>comparison\<close> is not among the nodes entered: the driver
  never invokes the third stage and never returns a state.
\<close>

theorem comparison_never_invoked:
  "(\<exists>e. fst (run_competitor_analysis env u mode empty_world) = Inl e) \<and>
   (node_log (snd (run_competitor_analysis env u mode empty_world)) = [''firecrawl''] \<or>
    node_log (snd (run_competitor_analysis env u mode empty_world)) = [''firecrawl'', ''analysis''])"
proof -
  let ?w = "empty_world\<lparr>node_log := node_log empty_world @ [''firecrawl'']\<rparr>"
  obtain r w' where f: "firecrawl_agent env (initial_state u mode) ?w = (r, w')"
    by (cases "firecrawl_agent env (initial_state u mode) ?w")
  have "node_log w' = node_log ?w"
    using firecrawl_agent_node_log[of env "initial_state u mode" ?w] f by simp
  then have n: "node_log w' = [''firecrawl'']" by (simp add: empty_world_def)
  show ?thesis
    by (cases r) (simp_all add: run_competitor_analysis_result f n)
qed

end
